theory Spec2Isabelle
  imports Main "HOL-Library.Sublist"
begin

section \<open>Text of the schedule file\<close>

text \<open>
  The converter reads a text file. A file is modelled as the list of its lines, as
  Python's \<^verbatim>\<open>readline\<close> and \<^verbatim>\<open>for line in f\<close> deliver
  them; a character is a code point below 256. \<^verbatim>\<open>str.strip\<close>,
  \<^verbatim>\<open>str.split\<close> (no separator) and \<^verbatim>\<open>int\<close> are the
  Python built-ins on such text.
\<close>

definition whitespace :: "char list" where
  "whitespace =
     [CHR 0x20, CHR 0x0A, CHR 0x09, CHR 0x0D, CHR 0x0B, CHR 0x0C,
      CHR 0x1C, CHR 0x1D, CHR 0x1E, CHR 0x1F, CHR 0x85, CHR 0xA0]"

definition is_space :: "char \<Rightarrow> bool" where
  "is_space c = (c \<in> set whitespace)"

definition py_strip :: "string \<Rightarrow> string" where
  "py_strip s = rev (dropWhile is_space (rev (dropWhile is_space s)))"

fun split_from :: "string \<Rightarrow> string \<Rightarrow> string list" where
  "split_from cur [] = (if cur = [] then [] else [cur])"
| "split_from cur (c # cs) =
     (if is_space c then (if cur = [] then split_from [] cs else cur # split_from [] cs)
      else split_from (cur @ [c]) cs)"

definition py_split :: "string \<Rightarrow> string list" where
  "py_split s = split_from [] s"

definition is_digit :: "char \<Rightarrow> bool" where
  "is_digit c = (c \<in> set ''0123456789'')"

text \<open>Decimal digits, single underscores allowed between two digits.\<close>

fun digits_ok :: "string \<Rightarrow> bool" where
  "digits_ok [] = False"
| "digits_ok [c] = is_digit c"
| "digits_ok (c # d # r) =
     (is_digit c \<and> (if d = CHR ''_'' then digits_ok r else digits_ok (d # r)))"

definition digit_value :: "char \<Rightarrow> int" where
  "digit_value c = int (length (takeWhile (\<lambda>d. d \<noteq> c) ''0123456789''))"

definition digits_value :: "string \<Rightarrow> int" where
  "digits_value s = foldl (\<lambda>a c. 10 * a + digit_value c) 0 (filter is_digit s)"

definition py_int :: "string \<Rightarrow> int option" where
  "py_int s =
     (case s of
        [] \<Rightarrow> None
      | c # r \<Rightarrow>
          if c = CHR ''-'' then (if digits_ok r then Some (- digits_value r) else None)
          else if c = CHR ''+'' then (if digits_ok r then Some (digits_value r) else None)
          else if digits_ok s then Some (digits_value s) else None)"

section \<open>Errors\<close>

datatype error =
    LayerParseError string
  | InvalidIntLiteral string
  | IndexError
  | NoneHasNoId
  | UnsupportedParallelism string
  | NodeIsNone string
  | UnknownComputeType string
  | ValueOutOfRange int

text \<open>
  \<^const>\<open>LayerParseError\<close> is the \<^verbatim>\<open>ValueError("Cannot parse the following layer")\<close> of
  \<^verbatim>\<open>Layer.__init__\<close>; \<^const>\<open>InvalidIntLiteral\<close> the \<^verbatim>\<open>ValueError\<close> of
  \<^verbatim>\<open>int\<close> in \<^verbatim>\<open>convert\<close>; \<^const>\<open>NoneHasNoId\<close> the
  \<^verbatim>\<open>AttributeError\<close> of \<^verbatim>\<open>parent_node.id\<close> when the parent is
  \<^verbatim>\<open>None\<close>; \<^const>\<open>UnsupportedParallelism\<close> the \<^verbatim>\<open>ValueError\<close> of the last
  branch of \<^verbatim>\<open>convert\<close>; \<^const>\<open>NodeIsNone\<close> the explicit
  \<^verbatim>\<open>ValueError("... is None")\<close> checks; \<^const>\<open>UnknownComputeType\<close> the
  \<^verbatim>\<open>RuntimeError\<close> of the custom builder; \<^const>\<open>ValueOutOfRange\<close> the
  \<^verbatim>\<open>ValueError\<close> of the trace schema when an unsigned 64-bit field
  (\<^verbatim>\<open>duration_micros\<close>, \<^verbatim>\<open>uint64_val\<close>) is given a value outside its range.
\<close>

section \<open>Layers\<close>

text \<open>
  A slot of a layer refers to a node object or is \<^verbatim>\<open>None\<close>. All the converter
  ever reads through such a reference is the node's \<^verbatim>\<open>id\<close>, which is set when the
  node is created and never changes, and every node gets its own id; so a reference is
  modelled by the id of the node it points to.
\<close>

record Layer =
  name :: string
  is_trainable :: bool
  fwd_comp_time :: int
  fwd_comm_type :: string
  fwd_comm_size :: int
  fwd_comp_node :: "nat option"
  fwd_comm_node :: "nat option"
  bwd_ig_comp_time :: int
  bwd_ig_comm_type :: string
  bwd_ig_comm_size :: int
  bwd_ig_comp_node :: "nat option"
  bwd_ig_comm_node :: "nat option"
  bwd_wg_comp_time :: int
  bwd_wg_comm_type :: string
  bwd_wg_comm_size :: int
  bwd_wg_update_time :: string
  bwd_wg_comp_node :: "nat option"
  bwd_wg_comm_node :: "nat option"

definition Layer_init :: "string \<Rightarrow> error + Layer" where
  "Layer_init line =
     (let col = py_split (py_strip line) in
      if length col < 12 then Inl (LayerParseError line)
      else
        (case (py_int (col ! 1), py_int (col ! 2), py_int (col ! 4), py_int (col ! 5),
               py_int (col ! 7), py_int (col ! 8), py_int (col ! 10)) of
           (Some c1, Some c2, Some c4, Some c5, Some c7, Some c8, Some c10) \<Rightarrow>
             Inr \<lparr> name = col ! 0, is_trainable = (c1 > 0),
                   fwd_comp_time = c2, fwd_comm_type = col ! 3, fwd_comm_size = c4,
                   fwd_comp_node = None, fwd_comm_node = None,
                   bwd_ig_comp_time = c5, bwd_ig_comm_type = col ! 6, bwd_ig_comm_size = c7,
                   bwd_ig_comp_node = None, bwd_ig_comm_node = None,
                   bwd_wg_comp_time = c8, bwd_wg_comm_type = col ! 9, bwd_wg_comm_size = c10,
                   bwd_wg_update_time = col ! 11,
                   bwd_wg_comp_node = None, bwd_wg_comm_node = None \<rparr>
         | _ \<Rightarrow> Inl (LayerParseError line)))"

text \<open>\<^verbatim>\<open>get_layers\<close>: one \<^verbatim>\<open>Layer\<close> per remaining line of the file.\<close>

fun get_layers :: "string list \<Rightarrow> int \<Rightarrow> error + Layer list" where
  "get_layers [] num_layers = Inr []"
| "get_layers (line # f) num_layers =
     (case Layer_init line of
        Inl e \<Rightarrow> Inl e
      | Inr layer \<Rightarrow>
          (case get_layers f num_layers of
             Inl e \<Rightarrow> Inl e
           | Inr layers \<Rightarrow> Inr (layer # layers)))"

section \<open>Nodes and messages\<close>

datatype NodeType = COMP_NODE | COMM_COLL_NODE

text \<open>
  The numbers behind the names \<^verbatim>\<open>ALL_REDUCE\<close>, \<^verbatim>\<open>ALL_TO_ALL\<close>,
  \<^verbatim>\<open>ALL_GATHER\<close> and \<^verbatim>\<open>REDUCE_SCATTER\<close> are declared by the trace schema,
  outside this file of the repository; they stay symbolic, and \<open>Literal_0\<close> is the
  \<^verbatim>\<open>return 0\<close> of \<^verbatim>\<open>get_comm_type\<close>.
\<close>

datatype CommTypeCode = ALL_REDUCE | ALL_TO_ALL | ALL_GATHER | REDUCE_SCATTER | Literal_0

datatype AttrValue =
    string_val string
  | int64_val CommTypeCode
  | uint64_val int
  | bool_list "bool list"

datatype ChakraAttr = ChakraAttr (attr_name: string) (attr_value: AttrValue)

record Node =
  node_id :: nat
  node_name :: string
  node_type :: NodeType
  duration_micros :: int
  attr :: "ChakraAttr list"
  data_deps :: "nat list"

datatype message = GlobalMetadata "ChakraAttr list" | NodeMessage Node

section \<open>The converter\<close>

text \<open>
  \<open>config\<close> holds the constructor's arguments that are only read. \<open>converter\<close> is
  what a run changes: the id counter, the layer kinds of the custom builder, the layers
  with their slots, the files already written and closed (the file of device \<open>i\<close> at
  position \<open>i\<close>), the content of the file open for writing, and the local variables of
  a builder that live across loop iterations.
\<close>

record config =
  input_file :: "string list"
  num_dims :: int
  num_npus :: int
  num_passes :: int

record converter =
  next_node_id :: nat
  layer_types :: "string list"
  layers :: "Layer list"
  files :: "message list list"
  sink :: "message list"
  local_fwd_comp_node :: "nat option"
  local_fwd_comm_node :: "nat option"
  local_prev_comp_node :: "nat option"

datatype outcome = Ok converter | Raised error converter

definition and_then :: "outcome \<Rightarrow> (converter \<Rightarrow> outcome) \<Rightarrow> outcome" where
  "and_then r k = (case r of Ok s \<Rightarrow> k s | Raised e s \<Rightarrow> Raised e s)"

fun for_loop :: "('i \<Rightarrow> converter \<Rightarrow> outcome) \<Rightarrow> 'i list \<Rightarrow> converter \<Rightarrow> outcome" where
  "for_loop body [] s = Ok s"
| "for_loop body (i # is) s = and_then (body i s) (for_loop body is)"

definition Text2ChakraConverter_init :: converter where
  "Text2ChakraConverter_init =
     \<lparr> next_node_id = 0, layer_types = [], layers = [], files = [], sink = [],
       local_fwd_comp_node = None, local_fwd_comm_node = None,
       local_prev_comp_node = None \<rparr>"

definition get_global_metadata :: "config \<Rightarrow> message" where
  "get_global_metadata cfg =
     GlobalMetadata [ChakraAttr ''schema'' (string_val ''1.0.2-chakra.0.0.4''),
                     ChakraAttr ''input_file'' (string_val (concat (input_file cfg)))]"

definition get_node :: "string \<Rightarrow> NodeType \<Rightarrow> converter \<Rightarrow> Node \<times> converter" where
  "get_node nm ty s =
     (\<lparr> node_id = next_node_id s, node_name = nm, node_type = ty, duration_micros = 0,
        attr = [], data_deps = [] \<rparr>,
      s\<lparr>next_node_id := next_node_id s + 1\<rparr>)"

text \<open>
  \<^verbatim>\<open>duration_micros\<close> and \<^verbatim>\<open>uint64_val\<close> are unsigned 64-bit fields of the
  trace schema: assigning a Python integer outside their range raises, and
  \<^verbatim>\<open>Layer.__init__\<close> accepts any integer. The node has its id by then, so the
  counter has advanced when the assignment raises.
\<close>

definition uint64_ok :: "int \<Rightarrow> bool" where
  "uint64_ok v = (0 \<le> v \<and> v < 2 ^ 64)"

definition get_comp_node ::
  "string \<Rightarrow> string \<Rightarrow> int \<Rightarrow> converter \<Rightarrow> (error + Node) \<times> converter" where
  "get_comp_node layer_name phase comp_time s =
     (let (node, s') = get_node (''COMP_NODE_'' @ layer_name @ ''_'' @ phase) COMP_NODE s
      in if uint64_ok comp_time then (Inr (node\<lparr>duration_micros := comp_time\<rparr>), s')
         else (Inl (ValueOutOfRange comp_time), s'))"

definition get_comm_type :: "string \<Rightarrow> CommTypeCode" where
  "get_comm_type comm_type =
     (if comm_type = ''ALLREDUCE'' then ALL_REDUCE
      else if comm_type = ''ALLTOALL'' then ALL_TO_ALL
      else if comm_type = ''ALLGATHER'' then ALL_GATHER
      else if comm_type = ''REDUCESCATTER'' then REDUCE_SCATTER
      else Literal_0)"

definition get_comm_coll_node ::
  "string \<Rightarrow> string \<Rightarrow> int \<Rightarrow> converter \<Rightarrow> (error + Node) \<times> converter" where
  "get_comm_coll_node layer_name comm_type comm_size s =
     (let (node, s') = get_node (''COMM_COLL_NODE_'' @ layer_name @ ''_'' @ comm_type)
                         COMM_COLL_NODE s
      in if uint64_ok comm_size
         then (Inr (node\<lparr>attr := attr node @
                      [ChakraAttr ''comm_type'' (int64_val (get_comm_type comm_type)),
                       ChakraAttr ''comm_size'' (uint64_val comm_size)]\<rparr>), s')
         else (Inl (ValueOutOfRange comm_size), s'))"

text \<open>
  The rest of a builder's step after a node has been asked for: it goes on with the node,
  or the step ends with the exception of the node's construction.
\<close>

definition with_node ::
  "(error + Node) \<times> converter \<Rightarrow> (Node \<Rightarrow> converter \<Rightarrow> outcome) \<Rightarrow> outcome" where
  "with_node r k = (case r of (Inl e, s) \<Rightarrow> Raised e s | (Inr node, s) \<Rightarrow> k node s)"

text \<open>
  \<^verbatim>\<open>add_parent\<close> with a parent that is a node, and with a parent read from a slot or a
  variable that may hold \<^verbatim>\<open>None\<close>, where \<^verbatim>\<open>parent_node.id\<close> raises.
\<close>

definition add_parent :: "Node \<Rightarrow> nat \<Rightarrow> Node" where
  "add_parent child_node parent_id = child_node\<lparr>data_deps := data_deps child_node @ [parent_id]\<rparr>"

definition add_parent_ref :: "Node \<Rightarrow> nat option \<Rightarrow> error + Node" where
  "add_parent_ref child_node parent_node =
     (case parent_node of
        None \<Rightarrow> Inl NoneHasNoId
      | Some p \<Rightarrow> Inr (add_parent child_node p))"

definition encode_message :: "message \<Rightarrow> converter \<Rightarrow> converter" where
  "encode_message m s = s\<lparr>sink := sink s @ [m]\<rparr>"

definition set_layer :: "nat \<Rightarrow> (Layer \<Rightarrow> Layer) \<Rightarrow> converter \<Rightarrow> converter" where
  "set_layer i upd s = s\<lparr>layers := (layers s)[i := upd (layers s ! i)]\<rparr>"

text \<open>
  \<^verbatim>\<open>with open(output_filename, "wb") as g\<close>: a new empty file is written by the body
  and closed when the body ends, also when it ends by an exception.
\<close>

definition close_sink :: "converter \<Rightarrow> converter" where
  "close_sink s = s\<lparr>files := files s @ [sink s], sink := []\<rparr>"

definition with_open :: "(converter \<Rightarrow> outcome) \<Rightarrow> converter \<Rightarrow> outcome" where
  "with_open body s =
     (case body (s\<lparr>sink := []\<rparr>) of
        Ok s' \<Rightarrow> Ok (close_sink s')
      | Raised e s' \<Rightarrow> Raised e (close_sink s'))"

text \<open>The \<^verbatim>\<open>involved_dim\<close> attribute: a first flag, then \<^verbatim>\<open>range(n)\<close> more.\<close>

definition involved_dim :: "bool list \<Rightarrow> bool \<Rightarrow> int \<Rightarrow> ChakraAttr" where
  "involved_dim first rest n = ChakraAttr ''involved_dim'' (bool_list (first @ replicate (nat n) rest))"

definition with_attr :: "Node \<Rightarrow> ChakraAttr \<Rightarrow> Node" where
  "with_attr node a = node\<lparr>attr := attr node @ [a]\<rparr>"


definition bind_res :: "error + 'a \<Rightarrow> ('a \<Rightarrow> error + 'b) \<Rightarrow> error + 'b" where
  "bind_res r k = (case r of Inl e \<Rightarrow> Inl e | Inr x \<Rightarrow> k x)"

subsection \<open>\<^verbatim>\<open>convert_microbenchmark\<close>\<close>

definition micro_step :: "config \<Rightarrow> nat \<Rightarrow> converter \<Rightarrow> outcome" where
  "micro_step cfg idx s0 =
     (let layer = layers s0 ! idx
      in with_node
           (get_comm_coll_node (name layer) (bwd_wg_comm_type layer) (bwd_wg_comm_size layer) s0)
           (\<lambda>bwd_wg_comm_node s1.
              let bwd_wg_comm_node = with_attr bwd_wg_comm_node (involved_dim [] True (num_dims cfg))
              in Ok (encode_message (NodeMessage bwd_wg_comm_node) s1)))"

definition micro_pass :: "config \<Rightarrow> converter \<Rightarrow> outcome" where
  "micro_pass cfg s = for_loop (micro_step cfg) [0..<length (layers s)] s"

definition micro_device :: "config \<Rightarrow> nat \<Rightarrow> converter \<Rightarrow> outcome" where
  "micro_device cfg npu_id =
     with_open (\<lambda>s. for_loop (\<lambda>i. micro_pass cfg) [0..<nat (num_passes cfg)]
                       (encode_message (get_global_metadata cfg) s))"

definition convert_microbenchmark :: "config \<Rightarrow> string list \<Rightarrow> int \<Rightarrow> converter \<Rightarrow> outcome" where
  "convert_microbenchmark cfg f num_layers s =
     (case get_layers f num_layers of
        Inl e \<Rightarrow> Raised e s
      | Inr ls \<Rightarrow> for_loop (micro_device cfg) [0..<nat (num_npus cfg)] (s\<lparr>layers := ls\<rparr>))"

subsection \<open>\<^verbatim>\<open>convert_data_parallel\<close>\<close>

definition data_forward_step :: "nat \<Rightarrow> converter \<Rightarrow> outcome" where
  "data_forward_step idx s0 =
     (let layer = layers s0 ! idx
      in with_node (get_comp_node (name layer) ''FWD'' (fwd_comp_time layer) s0)
           (\<lambda>fwd_comp_node s1.
              let s1 = s1\<lparr>local_fwd_comp_node := Some (node_id fwd_comp_node)\<rparr>
              in case bind_res
                        (if idx \<noteq> 0
                         then add_parent_ref fwd_comp_node (Layer.fwd_comp_node (layers s1 ! (idx - 1)))
                         else Inr fwd_comp_node)
                        (\<lambda>n. if bwd_wg_comm_node layer \<noteq> None
                             then add_parent_ref n (bwd_wg_comm_node layer) else Inr n) of
                   Inl e \<Rightarrow> Raised e s1
                 | Inr fwd_comp_node \<Rightarrow>
                     Ok (encode_message (NodeMessage fwd_comp_node)
                          (set_layer idx
                             (\<lambda>l. l\<lparr>Layer.fwd_comp_node := Some (node_id fwd_comp_node)\<rparr>) s1))))"

definition data_backward_step :: "config \<Rightarrow> nat \<Rightarrow> converter \<Rightarrow> outcome" where
  "data_backward_step cfg idx s0 =
     (let len = length (layers s0);
          i = len - 1 - idx;
          layer = layers s0 ! i
      in with_node (get_comp_node (name layer) ''BWD_WG'' (bwd_wg_comp_time layer) s0)
           (\<lambda>bwd_wg_comp_node s1.
              case (if idx = 0
                    then (case local_fwd_comp_node s1 of
                            None \<Rightarrow> Inl (NodeIsNone ''fwd_comp_node'')
                          | Some p \<Rightarrow> Inr (add_parent bwd_wg_comp_node p))
                    else add_parent_ref bwd_wg_comp_node
                           (Layer.bwd_ig_comp_node (layers s1 ! (len - idx)))) of
                Inl e \<Rightarrow> Raised e s1
              | Inr bwd_wg_comp_node \<Rightarrow>
                 (let s2 = encode_message (NodeMessage bwd_wg_comp_node) s1
                  in with_node
                       (get_comm_coll_node (name layer) (bwd_wg_comm_type layer)
                          (bwd_wg_comm_size layer) s2)
                       (\<lambda>bwd_wg_comm_node s3.
                          let bwd_wg_comm_node =
                                with_attr bwd_wg_comm_node (involved_dim [] True (num_dims cfg));
                              bwd_wg_comm_node = add_parent bwd_wg_comm_node (node_id bwd_wg_comp_node);
                              s4 = encode_message (NodeMessage bwd_wg_comm_node)
                                     (set_layer i
                                        (\<lambda>l. l\<lparr>Layer.bwd_wg_comm_node := Some (node_id bwd_wg_comm_node)\<rparr>)
                                        s3)
                          in if idx \<noteq> len - 1
                             then with_node
                                    (get_comp_node (name layer) ''BWD_IG'' (bwd_ig_comp_time layer) s4)
                                    (\<lambda>bwd_ig_comp_node s5.
                                       let bwd_ig_comp_node =
                                             add_parent bwd_ig_comp_node (node_id bwd_wg_comp_node)
                                       in Ok (encode_message (NodeMessage bwd_ig_comp_node)
                                                (set_layer i
                                                   (\<lambda>l. l\<lparr>Layer.bwd_ig_comp_node :=
                                                              Some (node_id bwd_ig_comp_node)\<rparr>)
                                                   s5)))
                             else Ok s4))))"

definition data_forward :: "converter \<Rightarrow> outcome" where
  "data_forward s = for_loop data_forward_step [0..<length (layers s)] s"

definition data_backward :: "config \<Rightarrow> converter \<Rightarrow> outcome" where
  "data_backward cfg s = for_loop (data_backward_step cfg) [0..<length (layers s)] s"

definition data_pass :: "config \<Rightarrow> converter \<Rightarrow> outcome" where
  "data_pass cfg s = and_then (data_forward (s\<lparr>local_fwd_comp_node := None\<rparr>)) (data_backward cfg)"

definition data_clear :: "converter \<Rightarrow> converter" where
  "data_clear s = s\<lparr>layers := map (\<lambda>l. l\<lparr>Layer.bwd_wg_comm_node := None\<rparr>) (layers s)\<rparr>"

definition data_device :: "config \<Rightarrow> nat \<Rightarrow> converter \<Rightarrow> outcome" where
  "data_device cfg npu_id =
     with_open (\<lambda>s. and_then
                      (for_loop (\<lambda>i. data_pass cfg) [0..<nat (num_passes cfg)]
                         (encode_message (get_global_metadata cfg) s))
                      (\<lambda>s. Ok (data_clear s)))"

definition convert_data_parallel :: "config \<Rightarrow> string list \<Rightarrow> int \<Rightarrow> converter \<Rightarrow> outcome" where
  "convert_data_parallel cfg f num_layers s =
     (case get_layers f num_layers of
        Inl e \<Rightarrow> Raised e s
      | Inr ls \<Rightarrow> for_loop (data_device cfg) [0..<nat (num_npus cfg)] (s\<lparr>layers := ls\<rparr>))"

subsection \<open>\<^verbatim>\<open>convert_model_parallel\<close>\<close>

definition model_forward_step :: "config \<Rightarrow> nat \<Rightarrow> converter \<Rightarrow> outcome" where
  "model_forward_step cfg idx s0 =
     (let layer = layers s0 ! idx
      in with_node (get_comp_node (name layer) ''FWD'' (fwd_comp_time layer) s0)
           (\<lambda>fwd_comp_node s1.
              case bind_res
                     (if idx \<noteq> 0
                      then add_parent_ref fwd_comp_node (Layer.fwd_comm_node (layers s1 ! (idx - 1)))
                      else Inr fwd_comp_node)
                     (\<lambda>n. if bwd_wg_comp_node layer \<noteq> None
                          then add_parent_ref n (bwd_wg_comp_node layer) else Inr n) of
                Inl e \<Rightarrow> Raised e s1
              | Inr fwd_comp_node \<Rightarrow>
                 (let s2 = encode_message (NodeMessage fwd_comp_node)
                             (set_layer idx
                                (\<lambda>l. l\<lparr>Layer.fwd_comp_node := Some (node_id fwd_comp_node)\<rparr>) s1)
                  in with_node
                       (get_comm_coll_node (name layer) (fwd_comm_type layer) (fwd_comm_size layer) s2)
                       (\<lambda>fwd_comm_node s3.
                          let s3 = s3\<lparr>local_fwd_comm_node := Some (node_id fwd_comm_node)\<rparr>;
                              fwd_comm_node =
                                with_attr fwd_comm_node (involved_dim [] True (num_dims cfg));
                              s4 = set_layer idx
                                     (\<lambda>l. l\<lparr>Layer.fwd_comm_node := Some (node_id fwd_comm_node)\<rparr>) s3;
                              fwd_comm_node = add_parent fwd_comm_node (node_id fwd_comp_node)
                          in Ok (encode_message (NodeMessage fwd_comm_node) s4)))))"

definition model_backward_step :: "config \<Rightarrow> int \<Rightarrow> nat \<Rightarrow> converter \<Rightarrow> outcome" where
  "model_backward_step cfg num_layers idx s0 =
     (let len = length (layers s0);
          i = len - 1 - idx;
          layer = layers s0 ! i
      in with_node (get_comp_node (name layer) ''BWD_IG'' (bwd_ig_comp_time layer) s0)
           (\<lambda>bwd_ig_comp_node s1.
              case (if idx = 0
                    then (case local_fwd_comm_node s1 of
                            None \<Rightarrow> Inl (NodeIsNone ''fwd_comm_node'')
                          | Some p \<Rightarrow> Inr (add_parent bwd_ig_comp_node p))
                    else bind_res
                           (add_parent_ref bwd_ig_comp_node
                              (Layer.bwd_wg_comp_node (layers s1 ! (len - idx))))
                           (\<lambda>n. add_parent_ref n (Layer.bwd_ig_comm_node (layers s1 ! (len - idx))))) of
                Inl e \<Rightarrow> Raised e s1
              | Inr bwd_ig_comp_node \<Rightarrow>
                 (let s2 = encode_message (NodeMessage bwd_ig_comp_node) s1
                  in and_then
                       (if int idx \<noteq> num_layers - 1
                        then with_node
                               (get_comm_coll_node (name layer) (bwd_ig_comm_type layer)
                                  (bwd_ig_comm_size layer) s2)
                               (\<lambda>bwd_ig_comm_node s.
                                  let bwd_ig_comm_node =
                                        with_attr bwd_ig_comm_node (involved_dim [] True (num_dims cfg));
                                      bwd_ig_comm_node =
                                        add_parent bwd_ig_comm_node (node_id bwd_ig_comp_node)
                                  in Ok (encode_message (NodeMessage bwd_ig_comm_node)
                                           (set_layer i
                                              (\<lambda>l. l\<lparr>Layer.bwd_ig_comm_node :=
                                                         Some (node_id bwd_ig_comm_node)\<rparr>)
                                              s)))
                        else Ok s2)
                       (\<lambda>s3. with_node
                                (get_comp_node (name layer) ''BWD_WG'' (bwd_wg_comp_time layer) s3)
                                (\<lambda>bwd_wg_comp_node s4.
                                   let bwd_wg_comp_node =
                                         add_parent bwd_wg_comp_node (node_id bwd_ig_comp_node)
                                   in Ok (encode_message (NodeMessage bwd_wg_comp_node)
                                            (set_layer i
                                               (\<lambda>l. l\<lparr>Layer.bwd_wg_comp_node :=
                                                          Some (node_id bwd_wg_comp_node)\<rparr>)
                                               s4)))))))"

definition model_pass :: "config \<Rightarrow> int \<Rightarrow> converter \<Rightarrow> outcome" where
  "model_pass cfg num_layers s =
     and_then (for_loop (model_forward_step cfg) [0..<length (layers s)]
                 (s\<lparr>local_fwd_comm_node := None\<rparr>))
       (\<lambda>s. for_loop (model_backward_step cfg num_layers) [0..<length (layers s)] s)"

definition model_clear :: "converter \<Rightarrow> converter" where
  "model_clear s = s\<lparr>layers := map (\<lambda>l. l\<lparr>Layer.bwd_wg_comp_node := None\<rparr>) (layers s)\<rparr>"

definition model_device :: "config \<Rightarrow> int \<Rightarrow> nat \<Rightarrow> converter \<Rightarrow> outcome" where
  "model_device cfg num_layers npu_id =
     with_open (\<lambda>s. and_then
                      (for_loop (\<lambda>i. model_pass cfg num_layers) [0..<nat (num_passes cfg)]
                         (encode_message (get_global_metadata cfg) s))
                      (\<lambda>s. Ok (model_clear s)))"

definition convert_model_parallel :: "config \<Rightarrow> string list \<Rightarrow> int \<Rightarrow> converter \<Rightarrow> outcome" where
  "convert_model_parallel cfg f num_layers s =
     (case get_layers f num_layers of
        Inl e \<Rightarrow> Raised e s
      | Inr ls \<Rightarrow> for_loop (model_device cfg num_layers) [0..<nat (num_npus cfg)] (s\<lparr>layers := ls\<rparr>))"

subsection \<open>\<^verbatim>\<open>convert_hybrid_data_model\<close> and \<^verbatim>\<open>convert_hybrid_model_data\<close>\<close>

text \<open>
  The two hybrid builders are the same text but for two things, which are the
  parameters of the shared steps: the flags of the \<^verbatim>\<open>involved_dim\<close> vectors
  (\<open>model_first\<close> is the first flag of the forward and input-gradient communications,
  \<^verbatim>\<open>True\<close> in \<^verbatim>\<open>convert_hybrid_data_model\<close>; the weight-gradient communication
  has the opposite flags), and the layer name given to the input-gradient communication
  node (\<open>ig_suffix\<close> is appended to it).
\<close>

definition hybrid_forward_step :: "bool \<Rightarrow> config \<Rightarrow> nat \<Rightarrow> converter \<Rightarrow> outcome" where
  "hybrid_forward_step model_first cfg idx s0 =
     (let layer = layers s0 ! idx
      in with_node (get_comp_node (name layer) ''FWD'' (fwd_comp_time layer) s0)
           (\<lambda>fwd_comp_node s1.
              case bind_res
                     (if bwd_wg_comm_node layer \<noteq> None
                      then add_parent_ref fwd_comp_node (bwd_wg_comm_node layer)
                      else Inr fwd_comp_node)
                     (\<lambda>n. if idx \<noteq> 0
                          then add_parent_ref n (Layer.fwd_comm_node (layers s1 ! (idx - 1)))
                          else Inr n) of
                Inl e \<Rightarrow> Raised e s1
              | Inr fwd_comp_node \<Rightarrow>
                 (let s2 = encode_message (NodeMessage fwd_comp_node) s1
                  in with_node
                       (get_comm_coll_node (name layer) (fwd_comm_type layer) (fwd_comm_size layer) s2)
                       (\<lambda>fwd_comm_node s3.
                          let s3 = s3\<lparr>local_fwd_comm_node := Some (node_id fwd_comm_node)\<rparr>;
                              fwd_comm_node = with_attr fwd_comm_node
                                 (involved_dim [model_first] (\<not> model_first) (num_dims cfg - 1));
                              fwd_comm_node = add_parent fwd_comm_node (node_id fwd_comp_node);
                              s4 = set_layer idx
                                     (\<lambda>l. l\<lparr>Layer.fwd_comm_node := Some (node_id fwd_comm_node)\<rparr>) s3
                          in Ok (encode_message (NodeMessage fwd_comm_node) s4)))))"

definition hybrid_backward_step ::
  "bool \<Rightarrow> string \<Rightarrow> config \<Rightarrow> int \<Rightarrow> nat \<Rightarrow> converter \<Rightarrow> outcome" where
  "hybrid_backward_step model_first ig_suffix cfg num_layers idx s0 =
     (let len = length (layers s0);
          i = len - 1 - idx;
          layer = layers s0 ! i
      in with_node (get_comp_node (name layer) ''BWD_IG'' (bwd_ig_comp_time layer) s0)
           (\<lambda>bwd_ig_comp_node s1.
              case (if idx = 0
                    then (case local_fwd_comm_node s1 of
                            None \<Rightarrow> Inl (NodeIsNone ''fwd_comm_node'')
                          | Some p \<Rightarrow> Inr (add_parent bwd_ig_comp_node p))
                    else bind_res
                           (add_parent_ref bwd_ig_comp_node
                              (Layer.bwd_wg_comp_node (layers s1 ! (len - idx))))
                           (\<lambda>n. add_parent_ref n (Layer.bwd_ig_comm_node (layers s1 ! (len - idx))))) of
                Inl e \<Rightarrow> Raised e s1
              | Inr bwd_ig_comp_node \<Rightarrow>
                 (let s2 = encode_message (NodeMessage bwd_ig_comp_node) s1
                  in and_then
                       (if int idx \<noteq> num_layers - 1
                        then with_node
                               (get_comm_coll_node (name layer @ ig_suffix) (bwd_ig_comm_type layer)
                                  (bwd_ig_comm_size layer) s2)
                               (\<lambda>bwd_ig_comm_node s.
                                  let bwd_ig_comm_node = with_attr bwd_ig_comm_node
                                        (involved_dim [model_first] (\<not> model_first) (num_dims cfg - 1));
                                      bwd_ig_comm_node =
                                        add_parent bwd_ig_comm_node (node_id bwd_ig_comp_node)
                                  in Ok (encode_message (NodeMessage bwd_ig_comm_node)
                                           (set_layer i
                                              (\<lambda>l. l\<lparr>Layer.bwd_ig_comm_node :=
                                                         Some (node_id bwd_ig_comm_node)\<rparr>)
                                              s)))
                        else Ok s2)
                       (\<lambda>s3. with_node
                                (get_comp_node (name layer) ''BWD_WG'' (bwd_wg_comp_time layer) s3)
                                (\<lambda>bwd_wg_comp_node s4.
                                   let bwd_wg_comp_node =
                                         add_parent bwd_wg_comp_node (node_id bwd_ig_comp_node);
                                       s5 = encode_message (NodeMessage bwd_wg_comp_node)
                                              (set_layer i
                                                 (\<lambda>l. l\<lparr>Layer.bwd_wg_comp_node :=
                                                            Some (node_id bwd_wg_comp_node)\<rparr>)
                                                 s4)
                                   in with_node
                                        (get_comm_coll_node (name layer) (bwd_wg_comm_type layer)
                                           (bwd_wg_comm_size layer) s5)
                                        (\<lambda>bwd_wg_comm_node s6.
                                           let bwd_wg_comm_node = with_attr bwd_wg_comm_node
                                                 (involved_dim [\<not> model_first] model_first
                                                    (num_dims cfg - 1));
                                               bwd_wg_comm_node =
                                                 add_parent bwd_wg_comm_node (node_id bwd_wg_comp_node)
                                           in Ok (encode_message (NodeMessage bwd_wg_comm_node)
                                                    (set_layer i
                                                       (\<lambda>l. l\<lparr>Layer.bwd_wg_comm_node :=
                                                                  Some (node_id bwd_wg_comm_node)\<rparr>)
                                                       s6))))))))"

definition hybrid_pass :: "bool \<Rightarrow> string \<Rightarrow> config \<Rightarrow> int \<Rightarrow> converter \<Rightarrow> outcome" where
  "hybrid_pass model_first ig_suffix cfg num_layers s =
     and_then (for_loop (hybrid_forward_step model_first cfg) [0..<length (layers s)]
                 (s\<lparr>local_fwd_comm_node := None\<rparr>))
       (\<lambda>s. for_loop (hybrid_backward_step model_first ig_suffix cfg num_layers)
               [0..<length (layers s)] s)"

definition hybrid_clear :: "converter \<Rightarrow> converter" where
  "hybrid_clear s = s\<lparr>layers := map (\<lambda>l. l\<lparr>Layer.bwd_wg_comm_node := None\<rparr>) (layers s)\<rparr>"

definition hybrid_device :: "bool \<Rightarrow> string \<Rightarrow> config \<Rightarrow> int \<Rightarrow> nat \<Rightarrow> converter \<Rightarrow> outcome" where
  "hybrid_device model_first ig_suffix cfg num_layers npu_id =
     with_open (\<lambda>s. and_then
                      (for_loop (\<lambda>i. hybrid_pass model_first ig_suffix cfg num_layers)
                         [0..<nat (num_passes cfg)]
                         (encode_message (get_global_metadata cfg) s))
                      (\<lambda>s. Ok (hybrid_clear s)))"

definition convert_hybrid :: "bool \<Rightarrow> string \<Rightarrow> config \<Rightarrow> string list \<Rightarrow> int \<Rightarrow> converter \<Rightarrow> outcome" where
  "convert_hybrid model_first ig_suffix cfg f num_layers s =
     (case get_layers f num_layers of
        Inl e \<Rightarrow> Raised e s
      | Inr ls \<Rightarrow>
          for_loop (hybrid_device model_first ig_suffix cfg num_layers) [0..<nat (num_npus cfg)]
            (s\<lparr>layers := ls\<rparr>))"

definition convert_hybrid_data_model :: "config \<Rightarrow> string list \<Rightarrow> int \<Rightarrow> converter \<Rightarrow> outcome" where
  "convert_hybrid_data_model = convert_hybrid True ''_IG_COMM_''"

definition convert_hybrid_model_data :: "config \<Rightarrow> string list \<Rightarrow> int \<Rightarrow> converter \<Rightarrow> outcome" where
  "convert_hybrid_model_data = convert_hybrid False []"

subsection \<open>\<^verbatim>\<open>convert_hybrid_dlrm\<close>\<close>

definition dlrm_forward_step :: "config \<Rightarrow> int \<Rightarrow> nat \<Rightarrow> converter \<Rightarrow> outcome" where
  "dlrm_forward_step cfg last_bottom_layer idx s0 =
     (let layer = layers s0 ! idx
      in with_node (get_comp_node (name layer) ''FWD'' (fwd_comp_time layer) s0)
           (\<lambda>fwd_comp_node s1.
              let s1 = s1\<lparr>local_fwd_comp_node := Some (node_id fwd_comp_node)\<rparr>
              in case bind_res
                        (if bwd_wg_comm_node layer \<noteq> None
                         then add_parent_ref fwd_comp_node (bwd_wg_comm_node layer)
                         else if bwd_wg_comp_node layer \<noteq> None
                         then add_parent_ref fwd_comp_node (bwd_wg_comp_node layer)
                         else Inr fwd_comp_node)
                        (\<lambda>n. bind_res
                               (if idx \<noteq> 0
                                then add_parent_ref n (Layer.fwd_comp_node (layers s1 ! (idx - 1)))
                                else Inr n)
                               (\<lambda>n. if int idx = last_bottom_layer
                                    then add_parent_ref n (Layer.fwd_comm_node (layers s1 ! 0))
                                    else Inr n)) of
                   Inl e \<Rightarrow> Raised e s1
                 | Inr fwd_comp_node \<Rightarrow>
                    (let s2 = encode_message (NodeMessage fwd_comp_node)
                                (set_layer idx
                                   (\<lambda>l. l\<lparr>Layer.fwd_comp_node := Some (node_id fwd_comp_node)\<rparr>) s1)
                     in if fwd_comm_type layer = ''ALLTOALL''
                        then with_node
                               (get_comm_coll_node (name layer) (fwd_comm_type layer)
                                  (fwd_comm_size layer) s2)
                               (\<lambda>fwd_comm_node s3.
                                  let fwd_comm_node =
                                        with_attr fwd_comm_node (involved_dim [] True (num_dims cfg));
                                      fwd_comm_node = add_parent fwd_comm_node (node_id fwd_comp_node)
                                  in Ok (encode_message (NodeMessage fwd_comm_node)
                                           (set_layer idx
                                              (\<lambda>l. l\<lparr>Layer.fwd_comm_node :=
                                                         Some (node_id fwd_comm_node)\<rparr>)
                                              s3)))
                        else Ok s2)))"

definition dlrm_backward_step :: "config \<Rightarrow> int \<Rightarrow> nat \<Rightarrow> converter \<Rightarrow> outcome" where
  "dlrm_backward_step cfg last_bottom_layer idx s0 =
     (let len = length (layers s0);
          i = len - 1 - idx;
          layer = layers s0 ! i
      in with_node (get_comp_node (name layer) ''BWD_WG'' (bwd_wg_comp_time layer) s0)
           (\<lambda>bwd_wg_comp_node s1.
              case (if idx = 0
                    then (case local_fwd_comp_node s1 of
                            None \<Rightarrow> Inl (NodeIsNone ''fwd_comp_node'')
                          | Some p \<Rightarrow> Inr (add_parent bwd_wg_comp_node p))
                    else bind_res
                           (if Layer.bwd_ig_comp_node (layers s1 ! (len - idx)) \<noteq> None
                            then add_parent_ref bwd_wg_comp_node
                                   (Layer.bwd_ig_comp_node (layers s1 ! (len - idx)))
                            else Inr bwd_wg_comp_node)
                           (\<lambda>n. if Layer.bwd_ig_comm_node (layers s1 ! (len - idx - 1)) \<noteq> None
                                then add_parent_ref n
                                       (Layer.bwd_ig_comm_node (layers s1 ! (len - idx - 1)))
                                else Inr n)) of
                Inl e \<Rightarrow> Raised e s1
              | Inr bwd_wg_comp_node \<Rightarrow>
                 (let s2 = encode_message (NodeMessage bwd_wg_comp_node)
                             (set_layer i
                                (\<lambda>l. l\<lparr>Layer.bwd_wg_comp_node := Some (node_id bwd_wg_comp_node)\<rparr>) s1)
                  in and_then
                       (if bwd_wg_comm_type layer \<noteq> ''NONE''
                        then with_node
                               (get_comm_coll_node (name layer) (bwd_wg_comm_type layer)
                                  (bwd_wg_comm_size layer) s2)
                               (\<lambda>bwd_wg_comm_node s.
                                  let bwd_wg_comm_node =
                                        with_attr bwd_wg_comm_node (involved_dim [] True (num_dims cfg));
                                      bwd_wg_comm_node =
                                        add_parent bwd_wg_comm_node (node_id bwd_wg_comp_node)
                                  in Ok (encode_message (NodeMessage bwd_wg_comm_node)
                                           (set_layer i
                                              (\<lambda>l. l\<lparr>Layer.bwd_wg_comm_node :=
                                                         Some (node_id bwd_wg_comm_node)\<rparr>)
                                              s)))
                        else Ok s2)
                       (\<lambda>s3.
                          let ig_comm = (\<lambda>bwd_ig_comp_node s4.
                                if int (len - idx - 1) = last_bottom_layer + 1
                                then with_node
                                       (get_comm_coll_node (name (layers s4 ! 0))
                                          (bwd_ig_comm_type (layers s4 ! 0))
                                          (bwd_ig_comm_size (layers s4 ! 0)) s4)
                                       (\<lambda>bwd_ig_comm_node s5.
                                          let bwd_ig_comm_node = with_attr bwd_ig_comm_node
                                                (involved_dim [] True (num_dims cfg))
                                          in case bwd_ig_comp_node of
                                               None \<Rightarrow> Raised (NodeIsNone ''bwd_ig_comp_node'') s5
                                             | Some p \<Rightarrow>
                                                 Ok (encode_message
                                                       (NodeMessage (add_parent bwd_ig_comm_node p))
                                                       (set_layer 0
                                                          (\<lambda>l. l\<lparr>Layer.bwd_ig_comm_node :=
                                                                     Some (node_id bwd_ig_comm_node)\<rparr>)
                                                          s5)))
                                else Ok s4)
                          in if idx \<noteq> len - 1
                             then with_node
                                    (get_comp_node (name layer) ''BWD_IG'' (bwd_ig_comp_time layer) s3)
                                    (\<lambda>n s.
                                       let n = add_parent n (node_id bwd_wg_comp_node)
                                       in ig_comm (Some (node_id n))
                                            (encode_message (NodeMessage n)
                                               (set_layer i
                                                  (\<lambda>l. l\<lparr>Layer.bwd_ig_comp_node := Some (node_id n)\<rparr>)
                                                  s)))
                             else ig_comm None s3))))"

definition dlrm_pass :: "config \<Rightarrow> int \<Rightarrow> converter \<Rightarrow> outcome" where
  "dlrm_pass cfg last_bottom_layer s =
     and_then (for_loop (dlrm_forward_step cfg last_bottom_layer) [0..<length (layers s)]
                 (s\<lparr>local_fwd_comp_node := None\<rparr>))
       (\<lambda>s. for_loop (dlrm_backward_step cfg last_bottom_layer) [0..<length (layers s)] s)"

definition dlrm_clear :: "converter \<Rightarrow> converter" where
  "dlrm_clear s =
     s\<lparr>layers := map (\<lambda>l. l\<lparr>Layer.bwd_wg_comm_node := None, Layer.bwd_wg_comp_node := None,
                             Layer.bwd_ig_comm_node := None, Layer.bwd_ig_comp_node := None\<rparr>)
                    (layers s)\<rparr>"

definition dlrm_device :: "config \<Rightarrow> int \<Rightarrow> nat \<Rightarrow> converter \<Rightarrow> outcome" where
  "dlrm_device cfg last_bottom_layer npu_id =
     with_open (\<lambda>s. and_then
                      (for_loop (\<lambda>i. dlrm_pass cfg last_bottom_layer) [0..<nat (num_passes cfg)]
                         (encode_message (get_global_metadata cfg) s))
                      (\<lambda>s. Ok (dlrm_clear s)))"

definition convert_hybrid_dlrm :: "config \<Rightarrow> string list \<Rightarrow> int \<Rightarrow> int \<Rightarrow> converter \<Rightarrow> outcome" where
  "convert_hybrid_dlrm cfg f num_layers last_bottom_layer s =
     (case get_layers f num_layers of
        Inl e \<Rightarrow> Raised e s
      | Inr ls \<Rightarrow>
          for_loop (dlrm_device cfg last_bottom_layer) [0..<nat (num_npus cfg)] (s\<lparr>layers := ls\<rparr>))"

subsection \<open>\<^verbatim>\<open>convert_custom_paralellism\<close>\<close>

text \<open>
  The kind of layer \<open>layer_id\<close>. The inner loop with its \<^verbatim>\<open>break\<close> computes whether
  a layer below is trainable; \<^verbatim>\<open>layers[layer_id]\<close> raises when the declared count
  runs past the layers read.
\<close>

definition custom_classify_step :: "nat \<Rightarrow> converter \<Rightarrow> outcome" where
  "custom_classify_step layer_id s =
     (if layer_id < length (layers s)
      then (let has_trainable_underneath =
                   list_ex (\<lambda>j. is_trainable (layers s ! j)) [0..<layer_id]
            in Ok (s\<lparr>layer_types := layer_types s @
                      [if is_trainable (layers s ! layer_id)
                       then (if has_trainable_underneath then ''FP+IG+WG'' else ''FP+WG'')
                       else (if has_trainable_underneath then ''FP+IG'' else ''FP'')]\<rparr>))
      else Raised IndexError s)"

definition custom_forward_step :: "nat \<Rightarrow> converter \<Rightarrow> outcome" where
  "custom_forward_step idx s0 =
     (let layer = layers s0 ! idx
      in with_node (get_comp_node (name layer) ''FWD'' (fwd_comp_time layer) s0)
           (\<lambda>fwd_comp_node s1.
              let s1 = s1\<lparr>local_fwd_comp_node := Some (node_id fwd_comp_node)\<rparr>
              in case (if idx \<noteq> 0
                       then add_parent_ref fwd_comp_node (Layer.fwd_comp_node (layers s1 ! (idx - 1)))
                       else Inr fwd_comp_node) of
                   Inl e \<Rightarrow> Raised e s1
                 | Inr fwd_comp_node \<Rightarrow>
                     Ok (encode_message (NodeMessage fwd_comp_node)
                          (set_layer idx
                             (\<lambda>l. l\<lparr>Layer.fwd_comp_node := Some (node_id fwd_comp_node)\<rparr>) s1))))"

definition custom_backward_step :: "nat \<Rightarrow> converter \<Rightarrow> outcome" where
  "custom_backward_step idx s0 =
     (let len = length (layers s0);
          i = len - 1 - idx;
          layer = layers s0 ! i
      in if length (layer_types s0) \<le> idx then Raised IndexError s0
         else if layer_types s0 ! idx = ''FP''
         then Ok (set_layer i (\<lambda>l. l\<lparr>Layer.bwd_ig_comp_node := None,
                                       Layer.bwd_wg_comp_node := None\<rparr>) s0)
         else if layer_types s0 ! idx = ''FP+IG''
         then with_node (get_comp_node (name layer) ''BWD_IG'' (bwd_ig_comp_time layer) s0)
                (\<lambda>ig_comp_node s1.
                   case add_parent_ref ig_comp_node
                          (if idx = 0 then local_fwd_comp_node s1 else local_prev_comp_node s1) of
                     Inl e \<Rightarrow> Raised e s1
                   | Inr ig_comp_node \<Rightarrow>
                       Ok (encode_message (NodeMessage ig_comp_node)
                            (set_layer i
                               (\<lambda>l. l\<lparr>Layer.bwd_ig_comp_node := Some (node_id ig_comp_node),
                                       Layer.bwd_wg_comp_node := None\<rparr>)
                               (s1\<lparr>local_prev_comp_node := Some (node_id ig_comp_node)\<rparr>))))
         else if layer_types s0 ! idx = ''FP+WG''
         then with_node (get_comp_node (name layer) ''BWD_WG'' (bwd_wg_comp_time layer) s0)
                (\<lambda>wg_comp_node s1.
                   case add_parent_ref wg_comp_node
                          (if idx = 0 then local_fwd_comp_node s1 else local_prev_comp_node s1) of
                     Inl e \<Rightarrow> Raised e s1
                   | Inr wg_comp_node \<Rightarrow>
                       Ok (encode_message (NodeMessage wg_comp_node)
                            (set_layer i
                               (\<lambda>l. l\<lparr>Layer.bwd_ig_comp_node := None,
                                       Layer.bwd_wg_comp_node := Some (node_id wg_comp_node)\<rparr>)
                               (s1\<lparr>local_prev_comp_node := Some (node_id wg_comp_node)\<rparr>))))
         else if layer_types s0 ! idx = ''FP+IG+WG''
         then with_node (get_comp_node (name layer) ''BWD_IG'' (bwd_ig_comp_time layer) s0)
                (\<lambda>ig_comp_node s1.
                   with_node (get_comp_node (name layer) ''BWD_WG'' (bwd_wg_comp_time layer) s1)
                     (\<lambda>wg_comp_node s2.
                        let ig_comp_node = add_parent ig_comp_node (node_id wg_comp_node)
                        in case add_parent_ref wg_comp_node
                                  (if idx = 0 then local_fwd_comp_node s2
                                   else local_prev_comp_node s2) of
                             Inl e \<Rightarrow> Raised e s2
                           | Inr wg_comp_node \<Rightarrow>
                               Ok (encode_message (NodeMessage wg_comp_node)
                                    (encode_message (NodeMessage ig_comp_node)
                                       (set_layer i
                                          (\<lambda>l. l\<lparr>Layer.bwd_ig_comp_node := Some (node_id ig_comp_node),
                                                  Layer.bwd_wg_comp_node := Some (node_id wg_comp_node)\<rparr>)
                                          (s2\<lparr>local_prev_comp_node := Some (node_id ig_comp_node)\<rparr>))))))
         else Raised (UnknownComputeType (layer_types s0 ! idx)) s0)"

definition custom_pass :: "converter \<Rightarrow> outcome" where
  "custom_pass s =
     and_then (for_loop custom_forward_step [0..<length (layers s)]
                 (s\<lparr>local_fwd_comp_node := None\<rparr>))
       (\<lambda>s. for_loop custom_backward_step [0..<length (layers s)]
               (s\<lparr>local_prev_comp_node := None\<rparr>))"

definition custom_device :: "config \<Rightarrow> nat \<Rightarrow> converter \<Rightarrow> outcome" where
  "custom_device cfg npu_id =
     with_open (for_loop (\<lambda>i. custom_pass) [0..<nat (num_passes cfg)])"

definition convert_custom_paralellism :: "config \<Rightarrow> string list \<Rightarrow> int \<Rightarrow> converter \<Rightarrow> outcome" where
  "convert_custom_paralellism cfg f num_layers s =
     (case get_layers f num_layers of
        Inl e \<Rightarrow> Raised e (s\<lparr>layer_types := []\<rparr>)
      | Inr ls \<Rightarrow>
          and_then (for_loop custom_classify_step [0..<nat num_layers]
                      (s\<lparr>layer_types := [], layers := ls\<rparr>))
            (for_loop (custom_device cfg) [0..<nat (num_npus cfg)]))"

subsection \<open>\<^verbatim>\<open>convert\<close>\<close>

text \<open>\<^verbatim>\<open>f.readline()\<close>: the next line and the rest of the file, the empty string at its end.\<close>

definition readline :: "string list \<Rightarrow> string \<times> string list" where
  "readline f = (case f of [] \<Rightarrow> ([], []) | line # rest \<Rightarrow> (line, rest))"

definition convert :: "config \<Rightarrow> converter \<Rightarrow> outcome" where
  "convert cfg s =
     (let (line1, f) = readline (input_file cfg);
          first_line = py_split (py_strip line1)
      in case first_line of
           [] \<Rightarrow> Raised IndexError s
         | parallelism_type # _ \<Rightarrow>
            (let (line2, f) = readline f
             in case py_int (py_strip line2) of
                  None \<Rightarrow> Raised (InvalidIntLiteral (py_strip line2)) s
                | Some num_layers \<Rightarrow>
                    if parallelism_type = ''MICRO'' then convert_microbenchmark cfg f num_layers s
                    else if parallelism_type = ''DATA'' then convert_data_parallel cfg f num_layers s
                    else if parallelism_type = ''MODEL'' then convert_model_parallel cfg f num_layers s
                    else if parallelism_type = ''HYBRID_DATA_MODEL''
                    then convert_hybrid_data_model cfg f num_layers s
                    else if parallelism_type = ''HYBRID_MODEL_DATA''
                    then convert_hybrid_model_data cfg f num_layers s
                    else if parallelism_type = ''CUSTOM''
                    then convert_custom_paralellism cfg f num_layers s
                    else if parallelism_type = ''HYBRID_DLRM'' \<or> parallelism_type = ''HYBRID_DLRM_ENHANCED''
                    then (if length first_line < 2 then Raised IndexError s
                          else (case py_int (first_line ! 1) of
                                  None \<Rightarrow> Raised (InvalidIntLiteral (first_line ! 1)) s
                                | Some last_bottom_layer \<Rightarrow>
                                    convert_hybrid_dlrm cfg f num_layers last_bottom_layer s))
                    else Raised (UnsupportedParallelism parallelism_type) s))"

text \<open>A run: a freshly constructed converter, then \<^verbatim>\<open>convert()\<close>.\<close>

definition run :: "config \<Rightarrow> outcome" where
  "run cfg = convert cfg Text2ChakraConverter_init"

text \<open>What a run leaves behind: the files, whether it ended normally or by an exception.\<close>

fun final :: "outcome \<Rightarrow> converter" where
  "final (Ok s) = s"
| "final (Raised e s) = s"

fun raised :: "outcome \<Rightarrow> error option" where
  "raised (Ok s) = None"
| "raised (Raised e s) = Some e"

section \<open>What is observed of a run\<close>

text \<open>The node records of a file, in the order they were written.\<close>

fun nodes_of :: "message list \<Rightarrow> Node list" where
  "nodes_of [] = []"
| "nodes_of (GlobalMetadata a # ms) = nodes_of ms"
| "nodes_of (NodeMessage n # ms) = n # nodes_of ms"

text \<open>All node records written so far, over all files, in the order of writing.\<close>

definition emitted :: "converter \<Rightarrow> Node list" where
  "emitted s = nodes_of (concat (files s) @ sink s)"

text \<open>
  A postcondition of a computation: \<open>P\<close> of the state it returns, \<open>Q\<close> of the state
  in which it raised.
\<close>

fun post :: "(converter \<Rightarrow> bool) \<Rightarrow> (converter \<Rightarrow> bool) \<Rightarrow> outcome \<Rightarrow> bool" where
  "post P Q (Ok s) = P s"
| "post P Q (Raised e s) = Q s"

text \<open>The tags that \<^verbatim>\<open>convert\<close> dispatches on.\<close>

definition recognized_tags :: "string list" where
  "recognized_tags =
     [''MICRO'', ''DATA'', ''MODEL'', ''HYBRID_DATA_MODEL'', ''HYBRID_MODEL_DATA'', ''CUSTOM'',
      ''HYBRID_DLRM'', ''HYBRID_DLRM_ENHANCED'']"

text \<open>Schedules used as concrete inputs.\<close>

definition layer_line :: "string \<Rightarrow> string \<Rightarrow> string \<Rightarrow> string" where
  "layer_line nm trainable fwd_comm =
     nm @ '' '' @ trainable @ '' 10 '' @ fwd_comm @ '' 100 20 NONE 0 30 ALLREDUCE 100 5'' @ [CHR 0x0A]"

definition schedule :: "string \<Rightarrow> string \<Rightarrow> string list \<Rightarrow> config" where
  "schedule header count layer_lines =
     \<lparr> input_file = (header @ [CHR 0x0A]) # (count @ [CHR 0x0A]) # layer_lines,
       num_dims = 2, num_npus = 1, num_passes = 1 \<rparr>"

definition custom_frozen_trainable :: config where
  "custom_frozen_trainable =
     schedule ''CUSTOM'' ''2'' [layer_line ''A'' ''0'' ''NONE'', layer_line ''B'' ''1'' ''NONE'']"

definition custom_trainable_trainable :: config where
  "custom_trainable_trainable =
     schedule ''CUSTOM'' ''2'' [layer_line ''A'' ''1'' ''NONE'', layer_line ''B'' ''1'' ''NONE'']"


definition two_layer_lines :: "string list" where
  "two_layer_lines = [layer_line ''A'' ''1'' ''NONE'', layer_line ''B'' ''1'' ''NONE'']"

definition two_layers :: "string \<Rightarrow> string \<Rightarrow> config" where
  "two_layers header count = schedule header count two_layer_lines"

definition unknown_tag_bad_count :: config where
  "unknown_tag_bad_count = schedule ''PIPELINE'' ''two'' []"

definition unknown_tag_good_count :: config where
  "unknown_tag_good_count = schedule ''PIPELINE'' ''2'' [layer_line ''A'' ''0'' ''NONE'']"

text \<open>A short view of a node: its id, name and dependencies.\<close>

definition brief :: "Node \<Rightarrow> nat \<times> string \<times> nat list" where
  "brief n = (node_id n, node_name n, data_deps n)"

text \<open>The \<^verbatim>\<open>involved_dim\<close> vector of a node, if it has one.\<close>

fun involved_dim_of_attrs :: "ChakraAttr list \<Rightarrow> bool list option" where
  "involved_dim_of_attrs [] = None"
| "involved_dim_of_attrs (ChakraAttr nm v # as) =
     (if nm = ''involved_dim''
      then (case v of bool_list bs \<Rightarrow> Some bs | _ \<Rightarrow> None)
      else involved_dim_of_attrs as)"

definition involved_dim_of :: "Node \<Rightarrow> bool list option" where
  "involved_dim_of n = involved_dim_of_attrs (attr n)"

text \<open>
  The two vectors of \<open>n\<close> flags the hybrid modes are said to use: only the first
  dimension true (\<open>dims True n\<close>), or all dimensions but the first (\<open>dims False n\<close>).
\<close>

definition dims :: "bool \<Rightarrow> int \<Rightarrow> bool list" where
  "dims first_only n = map (\<lambda>i. (i = 0) = first_only) [0..<nat n]"

text \<open>
  The nodes written to the open file between a state and a later one, and what a step
  run from a state \<open>s\<close> writes: \<open>emits s view items r\<close> says that the step with outcome
  \<open>r\<close>, if it returns, has appended to the open file exactly the nodes whose views are
  \<open>items\<close>, in this order, and if it raises has written nothing.
\<close>

definition written :: "converter \<Rightarrow> converter \<Rightarrow> Node list" where
  "written s s' = nodes_of (drop (length (sink s)) (sink s'))"

definition emits :: "converter \<Rightarrow> (Node \<Rightarrow> 'a) \<Rightarrow> 'a list \<Rightarrow> outcome \<Rightarrow> bool" where
  "emits s view items r =
     post (\<lambda>s'. sink s' = sink s @ map NodeMessage (written s s') \<and> map view (written s s') = items)
          (\<lambda>s'. sink s' = sink s) r"

text \<open>A view of a node: its name, its type and its \<^verbatim>\<open>involved_dim\<close> vector.\<close>

definition dim_view :: "Node \<Rightarrow> string \<times> NodeType \<times> bool list option" where
  "dim_view n = (node_name n, node_type n, involved_dim_of n)"

definition one_layer :: converter where
  "one_layer =
     Text2ChakraConverter_init
       \<lparr>layers := [\<lparr> name = ''A'', is_trainable = True,
                     fwd_comp_time = 10, fwd_comm_type = ''ALLGATHER'', fwd_comm_size = 100,
                     fwd_comp_node = None, fwd_comm_node = None,
                     bwd_ig_comp_time = 20, bwd_ig_comm_type = ''REDUCESCATTER'', bwd_ig_comm_size = 100,
                     bwd_ig_comp_node = None, bwd_ig_comm_node = None,
                     bwd_wg_comp_time = 30, bwd_wg_comm_type = ''ALLREDUCE'', bwd_wg_comm_size = 100,
                     bwd_wg_update_time = ''5'',
                     bwd_wg_comp_node = None, bwd_wg_comm_node = None \<rparr>]\<rparr>"

definition two_dims :: config where
  "two_dims = \<lparr> input_file = [], num_dims = 2, num_npus = 1, num_passes = 1 \<rparr>"

text \<open>A view of a node: its name and its type.\<close>

definition kind_view :: "Node \<Rightarrow> string \<times> NodeType" where
  "kind_view n = (node_name n, node_type n)"

definition three_layer_lines :: "string list" where
  "three_layer_lines =
     [layer_line ''A'' ''0'' ''ALLTOALL'', layer_line ''B'' ''1'' ''ALLTOALL'',
      layer_line ''C'' ''1'' ''NONE'']"


definition parsed :: "string list \<Rightarrow> Layer list" where
  "parsed f = (case get_layers f 0 of Inl e \<Rightarrow> [] | Inr ls \<Rightarrow> ls)"

definition dlrm_three :: converter where
  "dlrm_three = Text2ChakraConverter_init \<lparr>layers := parsed three_layer_lines\<rparr>"

definition dlrm_three_alltoall :: config where
  "dlrm_three_alltoall = schedule ''HYBRID_DLRM 1'' ''3'' three_layer_lines"

definition only_layer1_lines :: "string list" where
  "only_layer1_lines =
     [layer_line ''A'' ''0'' ''NONE'', layer_line ''B'' ''1'' ''ALLTOALL'',
      layer_line ''C'' ''1'' ''NONE'']"

definition dlrm_only_layer1_alltoall :: config where
  "dlrm_only_layer1_alltoall = schedule ''HYBRID_DLRM 1'' ''3'' only_layer1_lines"

text \<open>
  The kinds of node of a data-parallel pass, told apart by type and by the phase tag
  that ends the name of a compute node.
\<close>

definition is_fwd_comp :: "Node \<Rightarrow> bool" where
  "is_fwd_comp n = (node_type n = COMP_NODE \<and> suffix ''_FWD'' (node_name n))"

definition is_wg_comp :: "Node \<Rightarrow> bool" where
  "is_wg_comp n = (node_type n = COMP_NODE \<and> suffix ''_BWD_WG'' (node_name n))"

definition is_ig_comp :: "Node \<Rightarrow> bool" where
  "is_ig_comp n = (node_type n = COMP_NODE \<and> suffix ''_BWD_IG'' (node_name n))"

definition is_comm :: "Node \<Rightarrow> bool" where
  "is_comm n = (node_type n = COMM_COLL_NODE)"

definition data_three :: converter where
  "data_three = Text2ChakraConverter_init \<lparr>layers := parsed three_layer_lines\<rparr>"

section \<open>What the data-parallel rules say a pass writes\<close>

text \<open>
  The forward compute node of layer \<open>i\<close> in a forward sweep started in state \<open>s\<close>: it
  depends on the forward compute node of layer \<open>i - 1\<close>, written just before it, and on
  the weight-gradient communication node that the slot of layer \<open>i\<close> holds, if any.
\<close>

definition data_fwd_node :: "converter \<Rightarrow> nat \<Rightarrow> Node" where
  "data_fwd_node s i =
     \<lparr> node_id = next_node_id s + i,
       node_name = ''COMP_NODE_'' @ name (layers s ! i) @ ''_FWD'',
       node_type = COMP_NODE,
       duration_micros = fwd_comp_time (layers s ! i),
       attr = [],
       data_deps = (if i = 0 then [] else [next_node_id s + i - 1])
                   @ (case bwd_wg_comm_node (layers s ! i) of None \<Rightarrow> [] | Some c \<Rightarrow> [c]) \<rparr>"

text \<open>
  The nodes of one step of a backward sweep, for a layer: the weight-gradient compute node
  with id \<open>n\<close>, depending on \<open>parent\<close>; its communication node; and, if asked for,
  the input-gradient compute node.
\<close>

definition data_bwd_group :: "config \<Rightarrow> Layer \<Rightarrow> nat \<Rightarrow> nat \<Rightarrow> bool \<Rightarrow> Node list" where
  "data_bwd_group cfg layer n parent with_ig =
     [\<lparr> node_id = n,
         node_name = ''COMP_NODE_'' @ name layer @ ''_BWD_WG'',
         node_type = COMP_NODE,
         duration_micros = bwd_wg_comp_time layer,
         attr = [],
         data_deps = [parent] \<rparr>,
      \<lparr> node_id = n + 1,
         node_name = ''COMM_COLL_NODE_'' @ name layer @ ''_'' @ bwd_wg_comm_type layer,
         node_type = COMM_COLL_NODE,
         duration_micros = 0,
         attr = [ChakraAttr ''comm_type'' (int64_val (get_comm_type (bwd_wg_comm_type layer))),
                 ChakraAttr ''comm_size'' (uint64_val (bwd_wg_comm_size layer)),
                 involved_dim [] True (num_dims cfg)],
         data_deps = [n] \<rparr>]
     @ (if with_ig
        then [\<lparr> node_id = n + 2,
                 node_name = ''COMP_NODE_'' @ name layer @ ''_BWD_IG'',
                 node_type = COMP_NODE,
                 duration_micros = bwd_ig_comp_time layer,
                 attr = [],
                 data_deps = [n] \<rparr>]
        else [])"

text \<open>
  The nodes of step \<open>idx\<close> of a backward sweep started in state \<open>s\<close>, for the layer
  \<open>length (layers s) - 1 - idx\<close>. The weight-gradient compute node depends on the last
  forward compute node in the first step, and on the input-gradient compute node of the
  step before in the others; the last step has no input-gradient compute node.
\<close>

definition data_bwd_nodes :: "config \<Rightarrow> converter \<Rightarrow> nat \<Rightarrow> Node list" where
  "data_bwd_nodes cfg s idx =
     data_bwd_group cfg (layers s ! (length (layers s) - 1 - idx)) (next_node_id s + 3 * idx)
       (if idx = 0 then the (local_fwd_comp_node s) else next_node_id s + 3 * idx - 1)
       (idx \<noteq> length (layers s) - 1)"

text \<open>The state after \<open>k\<close> steps of a forward sweep started in state \<open>s\<close>.\<close>

definition data_fwd_inv :: "converter \<Rightarrow> nat \<Rightarrow> converter \<Rightarrow> bool" where
  "data_fwd_inv s k s' =
     (next_node_id s' = next_node_id s + k
      \<and> length (layers s') = length (layers s)
      \<and> (\<forall>j<length (layers s).
            layers s' ! j =
              (if j < k then (layers s ! j)\<lparr>Layer.fwd_comp_node := Some (next_node_id s + j)\<rparr>
               else layers s ! j))
      \<and> (0 < k \<longrightarrow> local_fwd_comp_node s' = Some (next_node_id s + k - 1))
      \<and> sink s' = sink s @ map (\<lambda>i. NodeMessage (data_fwd_node s i)) [0..<k]
      \<and> files s' = files s)"

text \<open>The state after \<open>k\<close> steps of a backward sweep started in state \<open>s\<close>.\<close>

definition data_bwd_inv :: "config \<Rightarrow> converter \<Rightarrow> nat \<Rightarrow> converter \<Rightarrow> bool" where
  "data_bwd_inv cfg s k s' =
     (next_node_id s' = next_node_id s + 3 * k - (if k = length (layers s) \<and> 0 < k then 1 else 0)
      \<and> length (layers s') = length (layers s)
      \<and> (\<forall>j<length (layers s).
            layers s' ! j =
              (if length (layers s) - 1 - j < k
               then (layers s ! j)
                      \<lparr>Layer.bwd_wg_comm_node :=
                         Some (next_node_id s + 3 * (length (layers s) - 1 - j) + 1),
                       Layer.bwd_ig_comp_node :=
                         (if j \<noteq> 0
                          then Some (next_node_id s + 3 * (length (layers s) - 1 - j) + 2)
                          else Layer.bwd_ig_comp_node (layers s ! j))\<rparr>
               else layers s ! j))
      \<and> local_fwd_comp_node s' = local_fwd_comp_node s
      \<and> sink s' = sink s @ map NodeMessage (concat (map (data_bwd_nodes cfg s) [0..<k]))
      \<and> files s' = files s)"

section \<open>What is said of the node ids of a run\<close>

text \<open>
  A list of ids is contiguous when, put in increasing order, it is \<open>0, 1, 2, \<dots>\<close>: no
  gap and no repeat.
\<close>

definition contiguous :: "nat list \<Rightarrow> bool" where
  "contiguous ids = (sort ids = [0..<length ids])"

text \<open>
  The state of the counter while a run goes on: the ids written so far are contiguous and
  the counter is the next of them, so that no allocated id has been left unwritten.
\<close>

definition ids_ok :: "converter \<Rightarrow> bool" where
  "ids_ok s = (contiguous (map node_id (emitted s)) \<and> next_node_id s = length (emitted s))"

text \<open>The same when a run has raised: an id allocated last may not have been written.\<close>

definition ids_raised :: "converter \<Rightarrow> bool" where
  "ids_raised s = contiguous (map node_id (emitted s))"

section \<open>What is said of the communication nodes of the hybrid modes\<close>

text \<open>
  A communication node \<open>c\<close> written just after the compute node \<open>p\<close> it belongs to: it
  depends on \<open>p\<close> alone, \<open>p\<close> is a forward, an input-gradient or a weight-gradient
  compute node, and the \<^verbatim>\<open>involved_dim\<close> vector of \<open>c\<close> is a first flag followed by
  \<open>nd - 1\<close> opposite flags; the first flag is \<open>model_first\<close> for the communication of a
  forward or input-gradient computation, and its negation for that of a weight-gradient
  computation.
\<close>

definition comm_after :: "bool \<Rightarrow> int \<Rightarrow> Node \<Rightarrow> Node \<Rightarrow> bool" where
  "comm_after model_first nd p c =
     (node_type p = COMP_NODE \<and> data_deps c = [node_id p]
      \<and> (is_fwd_comp p \<or> is_ig_comp p \<or> is_wg_comp p)
      \<and> involved_dim_of c =
          Some ((is_wg_comp p \<noteq> model_first) # replicate (nat (nd - 1)) (is_wg_comp p = model_first)))"

text \<open>A trace in which every communication node is written just after its compute node.\<close>

fun hybrid_trace_ok :: "bool \<Rightarrow> int \<Rightarrow> Node option \<Rightarrow> Node list \<Rightarrow> bool" where
  "hybrid_trace_ok model_first nd prev [] = True"
| "hybrid_trace_ok model_first nd prev (n # ns) =
     ((if node_type n = COMM_COLL_NODE
       then (case prev of None \<Rightarrow> False | Some p \<Rightarrow> comm_after model_first nd p n)
       else True)
      \<and> hybrid_trace_ok model_first nd (Some n) ns)"

definition hybrid_inv :: "bool \<Rightarrow> int \<Rightarrow> converter \<Rightarrow> bool" where
  "hybrid_inv model_first nd s =
     (list_all (\<lambda>file. hybrid_trace_ok model_first nd None (nodes_of file)) (files s)
      \<and> hybrid_trace_ok model_first nd None (nodes_of (sink s)))"

text \<open>Two layers in each of the hybrid modes, three dimensions; one layer and no dimension.\<close>

definition hybrid_lines :: "string list" where
  "hybrid_lines = [layer_line ''A'' ''1'' ''ALLGATHER'', layer_line ''B'' ''1'' ''ALLGATHER'']"

definition hybrid_data_model_three_dims :: config where
  "hybrid_data_model_three_dims = (schedule ''HYBRID_DATA_MODEL'' ''2'' hybrid_lines)\<lparr>num_dims := 3\<rparr>"

definition hybrid_model_data_three_dims :: config where
  "hybrid_model_data_three_dims = (schedule ''HYBRID_MODEL_DATA'' ''2'' hybrid_lines)\<lparr>num_dims := 3\<rparr>"

definition hybrid_zero_dims :: config where
  "hybrid_zero_dims =
     (schedule ''HYBRID_DATA_MODEL'' ''1'' [layer_line ''A'' ''1'' ''ALLGATHER''])\<lparr>num_dims := 0\<rparr>"

section \<open>Loading the layers\<close>

lemma get_layers_count_irrelevant: "get_layers f n = get_layers f m"
  by (induction f) (auto split: sum.splits)

lemma get_layers_length: "get_layers f n = Inr ls \<Longrightarrow> length ls = length f"
  by (induction f arbitrary: ls) (auto split: sum.splits)

lemma get_layers_nth:
  "get_layers f n = Inr ls \<Longrightarrow> i < length f \<Longrightarrow> Layer_init (f ! i) = Inr (ls ! i)"
proof (induction f arbitrary: ls i)
  case Nil
  then show ?case by simp
next
  case (Cons line f)
  then show ?case
    by (cases i) (auto split: sum.splits)
qed

lemma get_layers_total:
  "\<forall>line \<in> set f. \<not> isl (Layer_init line) \<Longrightarrow> \<exists>ls. get_layers f n = Inr ls"
proof (induction f)
  case Nil
  then show ?case by simp
next
  case (Cons line f)
  then obtain ls where "get_layers f n = Inr ls" by auto
  moreover from Cons.prems obtain l where "Layer_init line = Inr l"
    by (cases "Layer_init line") auto
  ultimately show ?case by simp
qed

text \<open>A layer just loaded has all its slots empty.\<close>

lemma Layer_init_slots:
  assumes "Layer_init line = Inr l"
  shows "fwd_comp_node l = None \<and> fwd_comm_node l = None \<and> bwd_ig_comp_node l = None
    \<and> bwd_ig_comm_node l = None \<and> bwd_wg_comp_node l = None \<and> bwd_wg_comm_node l = None"
  using assms
  by (auto simp: Layer_init_def Let_def split: if_splits option.splits)

lemma get_layers_slots:
  assumes "get_layers f n = Inr ls" and "l \<in> set ls"
  shows "fwd_comp_node l = None \<and> fwd_comm_node l = None \<and> bwd_ig_comp_node l = None
    \<and> bwd_ig_comm_node l = None \<and> bwd_wg_comp_node l = None \<and> bwd_wg_comm_node l = None"
  using assms
proof (induction f arbitrary: ls)
  case Nil
  then show ?case by simp
next
  case (Cons line f)
  then show ?case
    by (auto split: sum.splits dest: Layer_init_slots)
qed

text \<open>
  The custom builder classifies as many layers as the count declares: when the count
  overstates the layers read, the classification runs past them and raises.
\<close>

lemma custom_classify_overstated:
  assumes "k \<le> length (layers s)" and "length (layers s) < m"
  shows "\<exists>s'. for_loop custom_classify_step [k..<m] s = Raised IndexError s'
            \<and> files s' = files s \<and> sink s' = sink s"
  using assms
proof (induction "length (layers s) - k" arbitrary: k s)
  case 0
  then have k: "k = length (layers s)" and "k < m"
    by simp_all
  then have "[k..<m] = k # [Suc k..<m]"
    by (simp add: upt_conv_Cons)
  then show ?case
    using k by (simp add: custom_classify_step_def and_then_def)
next
  case (Suc d)
  then have k: "k < length (layers s)" and "k < m"
    by simp_all
  then have u: "[k..<m] = k # [Suc k..<m]"
    by (simp add: upt_conv_Cons)
  obtain s1 where s1: "custom_classify_step k s = Ok s1" "layers s1 = layers s"
    "files s1 = files s" "sink s1 = sink s"
    using k by (simp add: custom_classify_step_def Let_def)
  have "\<exists>s'. for_loop custom_classify_step [Suc k..<m] s1 = Raised IndexError s'
            \<and> files s' = files s1 \<and> sink s' = sink s1"
    using Suc.hyps(2) Suc.prems k by (intro Suc.hyps(1)) (simp_all add: s1(2))
  then show ?case
    by (simp add: u s1 and_then_def)
qed

lemma convert_custom_overstated:
  assumes "get_layers f num_layers = Inr ls" and "int (length ls) < num_layers"
  shows "raised (convert_custom_paralellism cfg f num_layers s) = Some IndexError
     \<and> files (final (convert_custom_paralellism cfg f num_layers s)) = files s"
proof -
  let ?s = "s\<lparr>layer_types := [], layers := ls\<rparr>"
  have "0 \<le> length (layers ?s)" and "length (layers ?s) < nat num_layers"
    using assms(2) by simp_all
  from custom_classify_overstated [OF this]
  obtain s' where "for_loop custom_classify_step [0..<nat num_layers] ?s = Raised IndexError s'"
    and "files s' = files s"
    by auto
  then show ?thesis
    by (simp add: convert_custom_paralellism_def assms(1) and_then_def)
qed

text \<open>
  C10, as the code has it. \<^verbatim>\<open>get_layers\<close> never looks at the declared layer count:
  whatever the count, it returns the same result, which (when every line parses) has one
  record per remaining line of the file, the record of line \<open>i\<close> at position \<open>i\<close>; it
  fails only if a line does not parse, never because of the count. The builders that do
  not use the count elsewhere (microbenchmark, data-parallel, DLRM) convert the same for
  every declared count. The custom builder uses the count to classify the layers: a
  count that overstates the layers read makes it raise before any file is opened.
\<close>

theorem get_layers_ignores_declared_count:
  "get_layers f num_layers = get_layers f declared
   \<and> (\<forall>ls. get_layers f num_layers = Inr ls \<longrightarrow>
         length ls = length f \<and> (\<forall>i<length f. Layer_init (f ! i) = Inr (ls ! i)))
   \<and> ((\<forall>line \<in> set f. \<not> isl (Layer_init line)) \<longrightarrow> (\<exists>ls. get_layers f num_layers = Inr ls))
   \<and> convert_microbenchmark cfg f num_layers s = convert_microbenchmark cfg f declared s
   \<and> convert_data_parallel cfg f num_layers s = convert_data_parallel cfg f declared s
   \<and> convert_hybrid_dlrm cfg f num_layers b s = convert_hybrid_dlrm cfg f declared b s
   \<and> (\<forall>ls. get_layers f num_layers = Inr ls \<and> int (length ls) < num_layers \<longrightarrow>
         raised (convert_custom_paralellism cfg f num_layers s) = Some IndexError
         \<and> files (final (convert_custom_paralellism cfg f num_layers s)) = files s)"
proof -
  have eq: "get_layers f num_layers = get_layers f declared"
    by (rule get_layers_count_irrelevant)
  have micro: "convert_microbenchmark cfg f num_layers s = convert_microbenchmark cfg f declared s"
    unfolding convert_microbenchmark_def eq ..
  have data: "convert_data_parallel cfg f num_layers s = convert_data_parallel cfg f declared s"
    unfolding convert_data_parallel_def eq ..
  have dlrm: "convert_hybrid_dlrm cfg f num_layers b s = convert_hybrid_dlrm cfg f declared b s"
    unfolding convert_hybrid_dlrm_def eq ..
  have custom: "\<forall>ls. get_layers f num_layers = Inr ls \<and> int (length ls) < num_layers \<longrightarrow>
         raised (convert_custom_paralellism cfg f num_layers s) = Some IndexError
         \<and> files (final (convert_custom_paralellism cfg f num_layers s)) = files s"
    using convert_custom_overstated by blast
  have loaded: "\<forall>ls. get_layers f num_layers = Inr ls \<longrightarrow>
         length ls = length f \<and> (\<forall>i<length f. Layer_init (f ! i) = Inr (ls ! i))"
    using get_layers_length get_layers_nth by blast
  have total: "(\<forall>line \<in> set f. \<not> isl (Layer_init line)) \<longrightarrow> (\<exists>ls. get_layers f num_layers = Inr ls)"
    using get_layers_total by blast
  show ?thesis
    by (intro conjI) (rule eq loaded total micro data dlrm custom)+
qed

theorem get_layers_ignores_declared_count_witness:
  "\<not> isl (Layer_init (layer_line ''A'' ''1'' ''NONE''))
   \<and> \<not> isl (Layer_init (layer_line ''B'' ''1'' ''NONE''))
   \<and> (\<exists>ls. get_layers two_layer_lines 7 = Inr ls
          \<and> length ls = length two_layer_lines
          \<and> get_layers two_layer_lines 1 = Inr ls
          \<and> int (length ls) < 7
          \<and> raised (convert_custom_paralellism two_dims two_layer_lines 7 Text2ChakraConverter_init)
              = Some IndexError)
   \<and> map (map brief \<circ> nodes_of) (files (final (run (two_layers ''DATA'' ''7'')))) =
       map (map brief \<circ> nodes_of) (files (final (run (two_layers ''DATA'' ''2''))))
   \<and> map (map brief \<circ> nodes_of) (files (final (run (two_layers ''DATA'' ''1'')))) =
       [[(0, ''COMP_NODE_A_FWD'', []), (1, ''COMP_NODE_B_FWD'', [0]),
         (2, ''COMP_NODE_B_BWD_WG'', [1]), (3, ''COMM_COLL_NODE_B_ALLREDUCE'', [2]),
         (4, ''COMP_NODE_B_BWD_IG'', [2]), (5, ''COMP_NODE_A_BWD_WG'', [4]),
         (6, ''COMM_COLL_NODE_A_ALLREDUCE'', [5])]]"
proof -
  let ?f = two_layer_lines
  note T = get_layers_ignores_declared_count
    [where f = ?f and num_layers = 7 and declared = 1 and cfg = two_dims
       and s = Text2ChakraConverter_init]
  have h: "\<forall>line \<in> set ?f. \<not> isl (Layer_init line)"
    by code_simp
  from T [THEN conjunct2, THEN conjunct2, THEN conjunct1, THEN mp, OF h]
  obtain ls where 1: "get_layers ?f 7 = Inr ls" ..
  from T [THEN conjunct2, THEN conjunct1, THEN spec, THEN mp, OF 1]
  have 3: "length ls = length ?f" by (rule conjunct1)
  have 4: "get_layers ?f 1 = Inr ls"
    using 1 unfolding T [THEN conjunct1] .
  have len: "length ?f = 2"
    by code_simp
  have 5: "int (length ls) < 7"
    unfolding 3 len by simp
  from T [THEN conjunct2, THEN conjunct2, THEN conjunct2, THEN conjunct2, THEN conjunct2,
          THEN conjunct2, THEN spec, THEN mp, OF conjI [OF 1 5]]
  have 6: "raised (convert_custom_paralellism two_dims ?f 7 Text2ChakraConverter_init) = Some IndexError"
    by (rule conjunct1)
  have a: "\<not> isl (Layer_init (layer_line ''A'' ''1'' ''NONE''))"
    and b: "\<not> isl (Layer_init (layer_line ''B'' ''1'' ''NONE''))"
    by code_simp+
  have c: "map (map brief \<circ> nodes_of) (files (final (run (two_layers ''DATA'' ''7'')))) =
       map (map brief \<circ> nodes_of) (files (final (run (two_layers ''DATA'' ''2''))))"
    by code_simp
  have d: "map (map brief \<circ> nodes_of) (files (final (run (two_layers ''DATA'' ''1'')))) =
       [[(0, ''COMP_NODE_A_FWD'', []), (1, ''COMP_NODE_B_FWD'', [0]),
         (2, ''COMP_NODE_B_BWD_WG'', [1]), (3, ''COMM_COLL_NODE_B_ALLREDUCE'', [2]),
         (4, ''COMP_NODE_B_BWD_IG'', [2]), (5, ''COMP_NODE_A_BWD_WG'', [4]),
         (6, ''COMM_COLL_NODE_A_ALLREDUCE'', [5])]]"
    by code_simp
  show ?thesis
    by (intro conjI exI [of _ ls]) (rule a b 1 3 4 5 6 c d)+
qed

text \<open>
  The claim as stated fails where the count is used beyond the loading. With two layer
  lines, the custom builder converts with the count 2 and raises with the counts 3 and 1;
  the model-parallel and the hybrid builders convert with the count 2 and raise with the
  count 1, on the link to a communication node that was not created.
\<close>

theorem declared_count_can_raise:
  "raised (run (two_layers ''CUSTOM'' ''2'')) = None
   \<and> raised (run (two_layers ''CUSTOM'' ''3'')) = Some IndexError
   \<and> files (final (run (two_layers ''CUSTOM'' ''3''))) = []
   \<and> raised (run (two_layers ''CUSTOM'' ''1'')) = Some IndexError
   \<and> raised (run (two_layers ''MODEL'' ''2'')) = None
   \<and> raised (run (two_layers ''MODEL'' ''1'')) = Some NoneHasNoId
   \<and> raised (run (two_layers ''HYBRID_DATA_MODEL'' ''2'')) = None
   \<and> raised (run (two_layers ''HYBRID_DATA_MODEL'' ''1'')) = Some NoneHasNoId"
  by code_simp

section \<open>Dispatch on the mode tag\<close>

text \<open>
  C9, as the code has it. \<^verbatim>\<open>convert\<close> reads the layer count of line 2 with
  \<^verbatim>\<open>int\<close> before it looks at the tag. For a tag that is none of the eight recognized
  ones the conversion always fails and leaves the converter as it was, no file opened; the
  error is the unsupported-parallelism error when line 2 is an integer literal, and the
  error of \<^verbatim>\<open>int\<close> when it is not.
\<close>

theorem unrecognized_tag_fails_without_output:
  assumes "py_split (py_strip (fst (readline (input_file cfg)))) = tag # rest"
    and "tag \<notin> set recognized_tags"
  shows "final (convert cfg s) = s
    \<and> files (final (run cfg)) = []
    \<and> raised (convert cfg s) =
        Some (case py_int (py_strip (fst (readline (snd (readline (input_file cfg)))))) of
                None \<Rightarrow> InvalidIntLiteral (py_strip (fst (readline (snd (readline (input_file cfg))))))
              | Some num_layers \<Rightarrow> UnsupportedParallelism tag)"
proof -
  have c: "final (convert cfg s') = s' \<and> raised (convert cfg s') =
        Some (case py_int (py_strip (fst (readline (snd (readline (input_file cfg)))))) of
                None \<Rightarrow> InvalidIntLiteral (py_strip (fst (readline (snd (readline (input_file cfg))))))
              | Some num_layers \<Rightarrow> UnsupportedParallelism tag)" for s'
    using assms
    by (simp add: convert_def recognized_tags_def case_prod_unfold Let_def split: option.splits)
  have "files (final (run cfg)) = []"
    using c [of Text2ChakraConverter_init]
    by (simp add: run_def Text2ChakraConverter_init_def)
  with c show ?thesis by simp
qed

theorem unrecognized_tag_fails_without_output_witness:
  "py_split (py_strip (fst (readline (input_file unknown_tag_good_count)))) = ''PIPELINE'' # []
   \<and> ''PIPELINE'' \<notin> set recognized_tags
   \<and> files (final (run unknown_tag_good_count)) = []
   \<and> raised (run unknown_tag_good_count) = Some (UnsupportedParallelism ''PIPELINE'')"
proof -
  have 1: "py_split (py_strip (fst (readline (input_file unknown_tag_good_count)))) = ''PIPELINE'' # []"
    by code_simp
  have 2: "''PIPELINE'' \<notin> set recognized_tags"
    by code_simp
  have 3: "py_int (py_strip (fst (readline (snd (readline (input_file unknown_tag_good_count)))))) = Some 2"
    by code_simp
  note T = unrecognized_tag_fails_without_output [OF 1 2, of Text2ChakraConverter_init]
  have 4: "files (final (run unknown_tag_good_count)) = []"
    by (rule T [THEN conjunct2, THEN conjunct1])
  have 5: "raised (run unknown_tag_good_count) = Some (UnsupportedParallelism ''PIPELINE'')"
    using T [THEN conjunct2, THEN conjunct2] unfolding run_def 3 option.case .
  show ?thesis
    by (intro conjI) (rule 1 2 4 5)+
qed

text \<open>
  The claim as stated fails where line 2 is not an integer: the tag \<^verbatim>\<open>PIPELINE\<close> is
  not recognized, and the error raised is that of \<^verbatim>\<open>int("two")\<close>.
\<close>

theorem unrecognized_tag_other_error:
  "hd (py_split (py_strip (fst (readline (input_file unknown_tag_bad_count))))) = ''PIPELINE''
   \<and> ''PIPELINE'' \<notin> set recognized_tags
   \<and> raised (run unknown_tag_bad_count) = Some (InvalidIntLiteral ''two'')
   \<and> raised (run unknown_tag_bad_count) \<noteq> Some (UnsupportedParallelism ''PIPELINE'')"
  by code_simp

section \<open>The custom builder on two layers\<close>

text \<open>
  C2, at its own input: layer A frozen, layer B trainable. The layers are classified
  \<^verbatim>\<open>FP\<close> and \<^verbatim>\<open>FP+WG\<close>, but the backward sweep looks the kind up by the position in
  the reversed order: it treats B as \<^verbatim>\<open>FP\<close> and A as \<^verbatim>\<open>FP+WG\<close>, and the
  weight-gradient node it creates for A is linked to a previous node that does not exist.
  The run raises; the file holds the two forward nodes and no weight-gradient node.
\<close>

theorem custom_frozen_trainable_raises:
  "layer_types (final (run custom_frozen_trainable)) = [''FP'', ''FP+WG'']
   \<and> raised (run custom_frozen_trainable) = Some NoneHasNoId
   \<and> map (map brief \<circ> nodes_of) (files (final (run custom_frozen_trainable))) =
       [[(0, ''COMP_NODE_A_FWD'', []), (1, ''COMP_NODE_B_FWD'', [0])]]"
  by code_simp

text \<open>
  C1, at two trainable layers in custom mode. The run ends normally; in the backward sweep
  the input-gradient node of A gets id 3 and is written before the weight-gradient node
  of A, id 4, on which it depends.
\<close>

theorem custom_forward_reference:
  "raised (run custom_trainable_trainable) = None
   \<and> map (map brief \<circ> nodes_of) (files (final (run custom_trainable_trainable))) =
       [[(0, ''COMP_NODE_A_FWD'', []), (1, ''COMP_NODE_B_FWD'', [0]),
         (2, ''COMP_NODE_B_BWD_WG'', [1]), (3, ''COMP_NODE_A_BWD_IG'', [4]),
         (4, ''COMP_NODE_A_BWD_WG'', [2])]]"
  by code_simp

section \<open>Loops and postconditions\<close>

lemma post_and_then:
  assumes "post P' Q r" and "\<And>s. P' s \<Longrightarrow> post P Q (k s)"
  shows "post P Q (and_then r k)"
  using assms by (cases r) (auto simp: and_then_def)

lemma post_mono:
  assumes "post P Q r" and "\<And>s. P s \<Longrightarrow> P' s" and "\<And>s. Q s \<Longrightarrow> Q' s"
  shows "post P' Q' r"
  using assms by (cases r) auto

lemma post_conj:
  assumes "post P Q r" and "post P' Q' r"
  shows "post (\<lambda>s. P s \<and> P' s) (\<lambda>s. Q s \<and> Q' s) r"
  using assms by (cases r) auto

lemma post_Ok: "post P (\<lambda>s. False) r \<Longrightarrow> \<exists>s. r = Ok s \<and> P s"
  by (cases r) auto

lemma for_loop_append:
  "for_loop body (xs @ ys) s = and_then (for_loop body xs s) (for_loop body ys)"
proof (induction xs arbitrary: s)
  case Nil
  show ?case by (simp add: and_then_def)
next
  case (Cons x xs)
  show ?case
    by (cases "body x s") (simp_all add: and_then_def Cons.IH)
qed

text \<open>A loop keeps an invariant that every iteration keeps.\<close>

lemma post_for_loop:
  assumes "P s" and "\<And>i s. i \<in> set xs \<Longrightarrow> P s \<Longrightarrow> post P Q (body i s)"
  shows "post P Q (for_loop body xs s)"
  using assms
proof (induction xs arbitrary: s)
  case Nil
  then show ?case by simp
next
  case (Cons x xs)
  have "post P Q (body x s)"
    using Cons.prems by simp
  then show ?case
    using Cons by (cases "body x s") (simp_all add: and_then_def)
qed

text \<open>An invariant that depends on the number of iterations done.\<close>

lemma post_for_loop_from:
  assumes "P k s" and "k \<le> n"
    and "\<And>i s. k \<le> i \<Longrightarrow> i < n \<Longrightarrow> P i s \<Longrightarrow> post (P (Suc i)) Q (body i s)"
  shows "post (P n) Q (for_loop body [k..<n] s)"
  using assms
proof (induction "n - k" arbitrary: k s)
  case 0
  then show ?case by simp
next
  case (Suc d)
  then have lt: "k < n" by simp
  have step: "post (P (Suc k)) Q (body k s)"
    using Suc.prems lt by simp
  have rest: "post (P n) Q (for_loop body [Suc k..<n] s')" if "P (Suc k) s'" for s'
    using Suc.hyps(1) [of "Suc k" s'] Suc.hyps(2) Suc.prems(3) that lt by simp
  show ?case
    using step rest lt
    by (cases "body k s") (simp_all add: upt_conv_Cons and_then_def)
qed

lemma post_for_loop_upt:
  assumes "P 0 s"
    and "\<And>i s. i < n \<Longrightarrow> P i s \<Longrightarrow> post (P (Suc i)) Q (body i s)"
  shows "post (P n) Q (for_loop body [0..<n] s)"
  using assms by (intro post_for_loop_from) simp_all

lemma post_with_open:
  assumes "post (\<lambda>s. P (close_sink s)) (\<lambda>s. Q (close_sink s)) (body (s\<lparr>sink := []\<rparr>))"
  shows "post P Q (with_open body s)"
  using assms by (cases "body (s\<lparr>sink := []\<rparr>)") (simp_all add: with_open_def)

lemma add_parent_ref_simps [simp]:
  "add_parent_ref n None = Inl NoneHasNoId"
  "add_parent_ref n (Some p) = Inr (add_parent n p)"
  by (simp_all add: add_parent_ref_def)

lemma bind_res_simps [simp]:
  "bind_res (Inl e) k = Inl e"
  "bind_res (Inr x) k = k x"
  by (simp_all add: bind_res_def)

lemma nodes_of_map_NodeMessage [simp]: "nodes_of (map NodeMessage ns) = ns"
  by (induction ns) auto

lemma nodes_of_append [simp]: "nodes_of (xs @ ys) = nodes_of xs @ nodes_of ys"
  by (induction xs rule: nodes_of.induct) auto

lemma nodes_of_snoc [simp]:
  "nodes_of (ms @ [NodeMessage n]) = nodes_of ms @ [n]"
  "nodes_of (ms @ [GlobalMetadata a]) = nodes_of ms"
  by simp_all

subsection \<open>Nodes\<close>

lemma and_then_simps [simp]:
  "and_then (Ok s) k = k s"
  "and_then (Raised e s) k = Raised e s"
  by (simp_all add: and_then_def)

lemma with_node_simps [simp]:
  "with_node (Inr n, s) k = k n s"
  "with_node (Inl e, s) k = Raised e s"
  by (simp_all add: with_node_def)

lemma and_then_with_node:
  "and_then (with_node r k) k' = with_node r (\<lambda>n s. and_then (k n s) k')"
  by (cases r; cases "fst r") (auto simp: with_node_def)

lemma get_comp_node_ok:
  "uint64_ok c \<Longrightarrow>
   get_comp_node a ph c s =
     (Inr \<lparr> node_id = next_node_id s, node_name = ''COMP_NODE_'' @ a @ ''_'' @ ph,
            node_type = COMP_NODE, duration_micros = c, attr = [], data_deps = [] \<rparr>,
      s\<lparr>next_node_id := Suc (next_node_id s)\<rparr>)"
  by (simp add: get_comp_node_def get_node_def)

lemma get_comp_node_bad:
  "\<not> uint64_ok c \<Longrightarrow>
   get_comp_node a ph c s = (Inl (ValueOutOfRange c), s\<lparr>next_node_id := Suc (next_node_id s)\<rparr>)"
  by (simp add: get_comp_node_def get_node_def)

lemma get_comm_coll_node_ok:
  "uint64_ok c \<Longrightarrow>
   get_comm_coll_node a ty c s =
     (Inr \<lparr> node_id = next_node_id s, node_name = ''COMM_COLL_NODE_'' @ a @ ''_'' @ ty,
            node_type = COMM_COLL_NODE, duration_micros = 0,
            attr = [ChakraAttr ''comm_type'' (int64_val (get_comm_type ty)),
                    ChakraAttr ''comm_size'' (uint64_val c)],
            data_deps = [] \<rparr>,
      s\<lparr>next_node_id := Suc (next_node_id s)\<rparr>)"
  by (simp add: get_comm_coll_node_def get_node_def)

lemma get_comm_coll_node_bad:
  "\<not> uint64_ok c \<Longrightarrow>
   get_comm_coll_node a ty c s =
     (Inl (ValueOutOfRange c), s\<lparr>next_node_id := Suc (next_node_id s)\<rparr>)"
  by (simp add: get_comm_coll_node_def get_node_def)

lemma suffix_short: "length x \<le> length y \<Longrightarrow> suffix x (p @ y) = suffix x y"
proof
  assume "length x \<le> length y" and "suffix x (p @ y)"
  moreover have "suffix y (p @ y)"
    by (rule suffixI) simp
  ultimately show "suffix x y"
    by (rule suffix_length_suffix [rotated -1])
next
  assume "suffix x y"
  then show "suffix x (p @ y)"
    by (rule suffix_appendI)
qed

lemma suffix_long:
  assumes "length y \<le> length x" and "suffix x (p @ y)"
  shows "suffix y x"
proof -
  have "suffix y (p @ y)"
    by (rule suffixI) simp
  then show ?thesis
    using assms(2) assms(1) by (rule suffix_length_suffix)
qed

lemma phase_suffixes:
  "suffix ''_FWD'' (''COMP_NODE_'' @ nm @ ''_FWD'')"
  "\<not> suffix ''_BWD_WG'' (''COMP_NODE_'' @ nm @ ''_FWD'')"
  "\<not> suffix ''_BWD_IG'' (''COMP_NODE_'' @ nm @ ''_FWD'')"
  "\<not> suffix ''_FWD'' (''COMP_NODE_'' @ nm @ ''_BWD_WG'')"
  "suffix ''_BWD_WG'' (''COMP_NODE_'' @ nm @ ''_BWD_WG'')"
  "\<not> suffix ''_BWD_IG'' (''COMP_NODE_'' @ nm @ ''_BWD_WG'')"
  "\<not> suffix ''_FWD'' (''COMP_NODE_'' @ nm @ ''_BWD_IG'')"
  "\<not> suffix ''_BWD_WG'' (''COMP_NODE_'' @ nm @ ''_BWD_IG'')"
  "suffix ''_BWD_IG'' (''COMP_NODE_'' @ nm @ ''_BWD_IG'')"
proof -
  have short: "suffix x (''COMP_NODE_'' @ nm @ y) = suffix x y" if "length x \<le> length y" for x y
    using suffix_short [OF that, of "''COMP_NODE_'' @ nm"] by simp
  have long: "\<not> suffix x (''COMP_NODE_'' @ nm @ y)" if "length y \<le> length x" "\<not> suffix y x" for x y
    using suffix_long [OF that(1), of "''COMP_NODE_'' @ nm"] that(2) by auto
  show "suffix ''_FWD'' (''COMP_NODE_'' @ nm @ ''_FWD'')"
    "suffix ''_BWD_WG'' (''COMP_NODE_'' @ nm @ ''_BWD_WG'')"
    "suffix ''_BWD_IG'' (''COMP_NODE_'' @ nm @ ''_BWD_IG'')"
    "\<not> suffix ''_FWD'' (''COMP_NODE_'' @ nm @ ''_BWD_WG'')"
    "\<not> suffix ''_FWD'' (''COMP_NODE_'' @ nm @ ''_BWD_IG'')"
    "\<not> suffix ''_BWD_IG'' (''COMP_NODE_'' @ nm @ ''_BWD_WG'')"
    "\<not> suffix ''_BWD_WG'' (''COMP_NODE_'' @ nm @ ''_BWD_IG'')"
    by (simp_all add: short suffix_to_prefix)
  show "\<not> suffix ''_BWD_WG'' (''COMP_NODE_'' @ nm @ ''_FWD'')"
    "\<not> suffix ''_BWD_IG'' (''COMP_NODE_'' @ nm @ ''_FWD'')"
    by (rule long; simp add: suffix_to_prefix)+
qed

lemma add_parent_proj [simp]:
  "node_id (add_parent n p) = node_id n"
  "node_type (add_parent n p) = node_type n"
  "node_name (add_parent n p) = node_name n"
  "attr (add_parent n p) = attr n"
  "duration_micros (add_parent n p) = duration_micros n"
  "data_deps (add_parent n p) = data_deps n @ [p]"
  by (simp_all add: add_parent_def)

lemma with_attr_proj [simp]:
  "node_id (with_attr n a) = node_id n"
  "node_type (with_attr n a) = node_type n"
  "node_name (with_attr n a) = node_name n"
  "attr (with_attr n a) = attr n @ [a]"
  "duration_micros (with_attr n a) = duration_micros n"
  "data_deps (with_attr n a) = data_deps n"
  by (simp_all add: with_attr_def)

text \<open>The kind of a compute node is told by the phase it was created with.\<close>

lemma comp_kind:
  assumes "node_type n = COMP_NODE" and "node_name n = ''COMP_NODE_'' @ a @ ''_'' @ ph"
    and "ph = ''FWD'' \<or> ph = ''BWD_IG'' \<or> ph = ''BWD_WG''"
  shows "is_fwd_comp n = (ph = ''FWD'') \<and> is_ig_comp n = (ph = ''BWD_IG'')
    \<and> is_wg_comp n = (ph = ''BWD_WG'') \<and> \<not> is_comm n"
  using assms phase_suffixes [of a]
  by (auto simp: is_fwd_comp_def is_ig_comp_def is_wg_comp_def is_comm_def)

lemma kind_add_parent [simp]:
  "is_fwd_comp (add_parent n p) = is_fwd_comp n"
  "is_ig_comp (add_parent n p) = is_ig_comp n"
  "is_wg_comp (add_parent n p) = is_wg_comp n"
  "is_comm (add_parent n p) = is_comm n"
  "involved_dim_of (add_parent n p) = involved_dim_of n"
  by (simp_all add: is_fwd_comp_def is_ig_comp_def is_wg_comp_def is_comm_def involved_dim_of_def)

lemma involved_dim_of_new:
  "attr n = [ChakraAttr ''comm_type'' x, ChakraAttr ''comm_size'' y]
   \<Longrightarrow> involved_dim_of (with_attr n (involved_dim b r m)) = Some (b @ replicate (nat m) r)"
  by (simp add: involved_dim_of_def involved_dim_def)

text \<open>
  What is known of a node just created, and of the state then. The rules keep the node
  abstract: a step is verified from these facts alone.
\<close>

lemma post_comp_node:
  assumes "\<not> uint64_ok c \<Longrightarrow> Q (s\<lparr>next_node_id := Suc (next_node_id s)\<rparr>)"
    and "\<And>n. \<lbrakk>uint64_ok c; node_id n = next_node_id s; node_type n = COMP_NODE;
              data_deps n = []; is_fwd_comp n = (ph = ''FWD''); is_ig_comp n = (ph = ''BWD_IG'');
              is_wg_comp n = (ph = ''BWD_WG''); \<not> is_comm n\<rbrakk>
           \<Longrightarrow> post P Q (k n (s\<lparr>next_node_id := Suc (next_node_id s)\<rparr>))"
    and "ph = ''FWD'' \<or> ph = ''BWD_IG'' \<or> ph = ''BWD_WG''"
  shows "post P Q (with_node (get_comp_node a ph c s) k)"
proof (cases "uint64_ok c")
  case True
  let ?n = "\<lparr> node_id = next_node_id s, node_name = ''COMP_NODE_'' @ a @ ''_'' @ ph,
              node_type = COMP_NODE, duration_micros = c, attr = [], data_deps = [] \<rparr>"
  have "is_fwd_comp ?n = (ph = ''FWD'') \<and> is_ig_comp ?n = (ph = ''BWD_IG'')
      \<and> is_wg_comp ?n = (ph = ''BWD_WG'') \<and> \<not> is_comm ?n"
    by (rule comp_kind [OF _ _ assms(3)]) simp_all
  then show ?thesis
    unfolding get_comp_node_ok [OF True] with_node_simps
    by (intro assms(2)) (simp_all add: True)
next
  case False
  show ?thesis
    unfolding get_comp_node_bad [OF False] with_node_simps
    using assms(1) [OF False] by simp
qed

lemma post_comm_node:
  assumes "\<not> uint64_ok c \<Longrightarrow> Q (s\<lparr>next_node_id := Suc (next_node_id s)\<rparr>)"
    and "\<And>n. \<lbrakk>uint64_ok c; node_id n = next_node_id s; node_type n = COMM_COLL_NODE;
              data_deps n = []; is_comm n; \<not> is_fwd_comp n; \<not> is_ig_comp n; \<not> is_wg_comp n;
              \<And>b r m. involved_dim_of (with_attr n (involved_dim b r m)) =
                         Some (b @ replicate (nat m) r)\<rbrakk>
           \<Longrightarrow> post P Q (k n (s\<lparr>next_node_id := Suc (next_node_id s)\<rparr>))"
  shows "post P Q (with_node (get_comm_coll_node a ty c s) k)"
proof (cases "uint64_ok c")
  case True
  let ?n = "\<lparr> node_id = next_node_id s, node_name = ''COMM_COLL_NODE_'' @ a @ ''_'' @ ty,
            node_type = COMM_COLL_NODE, duration_micros = 0,
            attr = [ChakraAttr ''comm_type'' (int64_val (get_comm_type ty)),
                    ChakraAttr ''comm_size'' (uint64_val c)],
            data_deps = [] \<rparr>"
  have "involved_dim_of (with_attr ?n (involved_dim b r m)) = Some (b @ replicate (nat m) r)"
    for b r m
    by (rule involved_dim_of_new) simp
  then show ?thesis
    unfolding get_comm_coll_node_ok [OF True] with_node_simps
    by (intro assms(2))
      (simp_all add: True is_comm_def is_fwd_comp_def is_ig_comp_def is_wg_comp_def)
next
  case False
  show ?thesis
    unfolding get_comm_coll_node_bad [OF False] with_node_simps
    using assms(1) [OF False] by simp
qed

lemma post_and_then_comp_node:
  assumes "\<not> uint64_ok c \<Longrightarrow> Q (s\<lparr>next_node_id := Suc (next_node_id s)\<rparr>)"
    and "\<And>n. \<lbrakk>uint64_ok c; node_id n = next_node_id s; node_type n = COMP_NODE;
              data_deps n = []; is_fwd_comp n = (ph = ''FWD''); is_ig_comp n = (ph = ''BWD_IG'');
              is_wg_comp n = (ph = ''BWD_WG''); \<not> is_comm n\<rbrakk>
           \<Longrightarrow> post P Q (and_then (k n (s\<lparr>next_node_id := Suc (next_node_id s)\<rparr>)) k')"
    and "ph = ''FWD'' \<or> ph = ''BWD_IG'' \<or> ph = ''BWD_WG''"
  shows "post P Q (and_then (with_node (get_comp_node a ph c s) k) k')"
  unfolding and_then_with_node
  by (rule post_comp_node) (use assms in blast)+

lemma post_and_then_comm_node:
  assumes "\<not> uint64_ok c \<Longrightarrow> Q (s\<lparr>next_node_id := Suc (next_node_id s)\<rparr>)"
    and "\<And>n. \<lbrakk>uint64_ok c; node_id n = next_node_id s; node_type n = COMM_COLL_NODE;
              data_deps n = []; is_comm n; \<not> is_fwd_comp n; \<not> is_ig_comp n; \<not> is_wg_comp n;
              \<And>b r m. involved_dim_of (with_attr n (involved_dim b r m)) =
                         Some (b @ replicate (nat m) r)\<rbrakk>
           \<Longrightarrow> post P Q (and_then (k n (s\<lparr>next_node_id := Suc (next_node_id s)\<rparr>)) k')"
  shows "post P Q (and_then (with_node (get_comm_coll_node a ty c s) k) k')"
  unfolding and_then_with_node
  by (rule post_comm_node) (use assms in blast)+

lemma post_and_then_Ok: "post P Q (k s) \<Longrightarrow> post P Q (and_then (Ok s) k)"
  by simp

lemma add_parent_ref_Inr [simp]:
  "(add_parent_ref n x = Inr n') = (\<exists>p. x = Some p \<and> n' = add_parent n p)"
  by (cases x) auto

lemma bind_res_Inr [simp]:
  "(bind_res r k = Inr y) = (\<exists>x. r = Inr x \<and> k x = Inr y)"
  by (cases r) auto

lemma state_proj [simp]:
  "next_node_id (encode_message m s) = next_node_id s"
  "layers (encode_message m s) = layers s"
  "layer_types (encode_message m s) = layer_types s"
  "files (encode_message m s) = files s"
  "sink (encode_message m s) = sink s @ [m]"
  "local_fwd_comp_node (encode_message m s) = local_fwd_comp_node s"
  "local_fwd_comm_node (encode_message m s) = local_fwd_comm_node s"
  "local_prev_comp_node (encode_message m s) = local_prev_comp_node s"
  "next_node_id (set_layer i f s) = next_node_id s"
  "layers (set_layer i f s) = (layers s)[i := f (layers s ! i)]"
  "layer_types (set_layer i f s) = layer_types s"
  "files (set_layer i f s) = files s"
  "sink (set_layer i f s) = sink s"
  "local_fwd_comp_node (set_layer i f s) = local_fwd_comp_node s"
  "local_fwd_comm_node (set_layer i f s) = local_fwd_comm_node s"
  "local_prev_comp_node (set_layer i f s) = local_prev_comp_node s"
  by (simp_all add: encode_message_def set_layer_def)

text \<open>A step that links a node to its parents, or raises in the state it has reached.\<close>

lemma post_link:
  assumes "Q s" and "\<And>n. r = Inr n \<Longrightarrow> post P Q (k n)"
  shows "post P Q (case r of Inl e \<Rightarrow> Raised e s | Inr n \<Rightarrow> k n)"
  using assms by (cases r) simp_all

lemma post_if:
  assumes "c \<Longrightarrow> post P Q a" and "\<not> c \<Longrightarrow> post P Q b"
  shows "post P Q (if c then a else b)"
  using assms by simp

lemma post_and_then_if:
  assumes "c \<Longrightarrow> post P Q (and_then a k)" and "\<not> c \<Longrightarrow> post P Q (and_then b k)"
  shows "post P Q (and_then (if c then a else b) k)"
  using assms by simp

lemma post_OkI: "P s \<Longrightarrow> post P Q (Ok s)"
  by simp

lemma post_RaisedI: "Q s \<Longrightarrow> post P Q (Raised e s)"
  by simp

lemmas step_simps = Let_def and_then_with_node

lemmas flow_simps = and_then_with_node and_then_simps

lemmas step_rules =
  post_link post_if post_and_then_if post_OkI post_RaisedI post_and_then_Ok
  post_comp_node post_comm_node post_and_then_comp_node post_and_then_comm_node



section \<open>The \<^verbatim>\<open>involved_dim\<close> vectors of the hybrid modes\<close>

lemma hybrid_trace_ok_append_comp:
  "node_type n = COMP_NODE \<Longrightarrow>
   hybrid_trace_ok mf nd prev (xs @ n # rest) =
     (hybrid_trace_ok mf nd prev xs \<and> hybrid_trace_ok mf nd (Some n) rest)"
  by (induction xs arbitrary: prev) auto

lemma hybrid_trace_ok_snoc_comp:
  "node_type n = COMP_NODE \<Longrightarrow>
   hybrid_trace_ok mf nd prev (xs @ [n]) = hybrid_trace_ok mf nd prev xs"
  by (simp add: hybrid_trace_ok_append_comp)

lemmas hybrid_simps =
  hybrid_inv_def hybrid_trace_ok_append_comp hybrid_trace_ok_snoc_comp comm_after_def

lemma hybrid_forward_step_inv:
  "hybrid_inv mf (num_dims cfg) s \<Longrightarrow>
   post (hybrid_inv mf (num_dims cfg)) (hybrid_inv mf (num_dims cfg))
     (hybrid_forward_step mf cfg idx s)"
  unfolding hybrid_forward_step_def Let_def
  by (intro step_rules) (auto simp: hybrid_simps split: if_splits option.splits)

lemma hybrid_backward_step_inv:
  "hybrid_inv mf (num_dims cfg) s \<Longrightarrow>
   post (hybrid_inv mf (num_dims cfg)) (hybrid_inv mf (num_dims cfg))
     (hybrid_backward_step mf ig_suffix cfg num_layers idx s)"
  unfolding hybrid_backward_step_def Let_def
  by (intro step_rules) (auto simp: hybrid_simps split: if_splits option.splits)

lemma hybrid_pass_inv:
  assumes "hybrid_inv mf (num_dims cfg) s"
  shows "post (hybrid_inv mf (num_dims cfg)) (hybrid_inv mf (num_dims cfg))
           (hybrid_pass mf ig_suffix cfg num_layers s)"
  unfolding hybrid_pass_def
proof (rule post_and_then)
  show "post (hybrid_inv mf (num_dims cfg)) (hybrid_inv mf (num_dims cfg))
          (for_loop (hybrid_forward_step mf cfg) [0..<length (layers s)]
             (s\<lparr>local_fwd_comm_node := None\<rparr>))"
  proof (rule post_for_loop)
    show "hybrid_inv mf (num_dims cfg) (s\<lparr>local_fwd_comm_node := None\<rparr>)"
      using assms by (simp add: hybrid_inv_def)
  qed (rule hybrid_forward_step_inv)
next
  fix s'
  assume "hybrid_inv mf (num_dims cfg) s'"
  then show "post (hybrid_inv mf (num_dims cfg)) (hybrid_inv mf (num_dims cfg))
          (for_loop (hybrid_backward_step mf ig_suffix cfg num_layers) [0..<length (layers s')] s')"
    by (rule post_for_loop) (rule hybrid_backward_step_inv)
qed

lemma hybrid_inv_close [simp]: "hybrid_inv mf nd (close_sink s) = hybrid_inv mf nd s"
  by (auto simp: hybrid_inv_def close_sink_def)

lemma hybrid_device_inv:
  assumes "hybrid_inv mf (num_dims cfg) s"
  shows "post (hybrid_inv mf (num_dims cfg)) (hybrid_inv mf (num_dims cfg))
           (hybrid_device mf ig_suffix cfg num_layers npu_id s)"
  unfolding hybrid_device_def
proof (rule post_with_open, unfold hybrid_inv_close, rule post_and_then)
  show "post (hybrid_inv mf (num_dims cfg)) (hybrid_inv mf (num_dims cfg))
          (for_loop (\<lambda>i. hybrid_pass mf ig_suffix cfg num_layers) [0..<nat (num_passes cfg)]
             (encode_message (get_global_metadata cfg) (s\<lparr>sink := []\<rparr>)))"
  proof (rule post_for_loop)
    show "hybrid_inv mf (num_dims cfg) (encode_message (get_global_metadata cfg) (s\<lparr>sink := []\<rparr>))"
      using assms by (simp add: hybrid_inv_def get_global_metadata_def)
  qed (rule hybrid_pass_inv)
next
  fix s'
  assume "hybrid_inv mf (num_dims cfg) s'"
  then show "post (hybrid_inv mf (num_dims cfg)) (hybrid_inv mf (num_dims cfg)) (Ok (hybrid_clear s'))"
    by (simp add: hybrid_inv_def hybrid_clear_def)
qed

lemma convert_hybrid_inv:
  assumes "hybrid_inv mf (num_dims cfg) s"
  shows "post (hybrid_inv mf (num_dims cfg)) (hybrid_inv mf (num_dims cfg))
           (convert_hybrid mf ig_suffix cfg f num_layers s)"
proof (cases "get_layers f num_layers")
  case (Inl e)
  then show ?thesis
    using assms by (simp add: convert_hybrid_def)
next
  case (Inr ls)
  have "post (hybrid_inv mf (num_dims cfg)) (hybrid_inv mf (num_dims cfg))
          (for_loop (hybrid_device mf ig_suffix cfg num_layers) [0..<nat (num_npus cfg)]
             (s\<lparr>layers := ls\<rparr>))"
  proof (rule post_for_loop)
    show "hybrid_inv mf (num_dims cfg) (s\<lparr>layers := ls\<rparr>)"
      using assms by (simp add: hybrid_inv_def)
  qed (rule hybrid_device_inv)
  then show ?thesis
    by (simp add: convert_hybrid_def Inr)
qed

lemma run_hybrid_inv:
  assumes "py_split (py_strip (fst (readline (input_file cfg)))) = tag # rest"
    and "tag = ''HYBRID_DATA_MODEL'' \<or> tag = ''HYBRID_MODEL_DATA''"
  shows "hybrid_inv (tag = ''HYBRID_DATA_MODEL'') (num_dims cfg) (final (run cfg))"
proof -
  let ?s = Text2ChakraConverter_init
  let ?I = "hybrid_inv (tag = ''HYBRID_DATA_MODEL'') (num_dims cfg)"
  have init: "?I ?s"
    by (simp add: hybrid_inv_def Text2ChakraConverter_init_def)
  have "post ?I ?I (convert cfg ?s)"
  proof (cases "py_int (py_strip (fst (readline (snd (readline (input_file cfg))))))")
    case None
    then show ?thesis
      using assms(1) init by (simp add: convert_def case_prod_unfold)
  next
    case (Some n)
    from assms(2) show ?thesis
    proof
      assume t: "tag = ''HYBRID_DATA_MODEL''"
      have "convert cfg ?s =
          convert_hybrid True ''_IG_COMM_'' cfg (snd (readline (snd (readline (input_file cfg))))) n ?s"
        using assms(1) Some
        by (simp add: convert_def case_prod_unfold t convert_hybrid_data_model_def)
      then show ?thesis
        using convert_hybrid_inv [OF init [unfolded t], of "''_IG_COMM_''"] by (simp add: t)
    next
      assume t: "tag = ''HYBRID_MODEL_DATA''"
      have "convert cfg ?s =
          convert_hybrid False [] cfg (snd (readline (snd (readline (input_file cfg))))) n ?s"
        using assms(1) Some
        by (simp add: convert_def case_prod_unfold t convert_hybrid_model_data_def)
      then show ?thesis
        using convert_hybrid_inv [OF init [unfolded t], of "[]"] by (simp add: t)
    qed
  qed
  then show ?thesis
    unfolding run_def by (cases "convert cfg ?s") simp_all
qed

lemma hybrid_trace_ok_nth:
  assumes "hybrid_trace_ok mf nd prev ns" and "j < length ns"
    and "node_type (ns ! j) = COMM_COLL_NODE"
  shows "if j = 0 then \<exists>p. prev = Some p \<and> comm_after mf nd p (ns ! 0)
         else comm_after mf nd (ns ! (j - 1)) (ns ! j)"
  using assms
proof (induction ns arbitrary: prev j)
  case Nil
  then show ?case by simp
next
  case (Cons n ns)
  show ?case
  proof (cases j)
    case 0
    then show ?thesis
      using Cons.prems by (auto split: option.splits)
  next
    case (Suc i)
    have "if i = 0 then \<exists>p. Some n = Some p \<and> comm_after mf nd p (ns ! 0)
          else comm_after mf nd (ns ! (i - 1)) (ns ! i)"
      using Cons.prems Suc by (intro Cons.IH) simp_all
    then show ?thesis
      using Suc by (cases i) simp_all
  qed
qed

lemma dims_code: "1 \<le> n \<Longrightarrow> dims b n = b # replicate (nat (n - 1)) (\<not> b)"
  by (auto simp: dims_def list_eq_iff_nth_eq nth_Cons split: nat.splits)

text \<open>
  C7, as the code has it. In every run of \<^verbatim>\<open>HYBRID_DATA_MODEL\<close> or
  \<^verbatim>\<open>HYBRID_MODEL_DATA\<close>, whether it ends normally or by an exception, every
  communication node of every file written is directly preceded by the compute node it
  belongs to: it depends on that node alone, which is a forward, an input-gradient or a
  weight-gradient compute node. Its \<^verbatim>\<open>involved_dim\<close> vector is a first flag followed
  by \<open>num_dims - 1\<close> flags of the opposite value. In \<^verbatim>\<open>HYBRID_DATA_MODEL\<close> the first
  flag is true for the communication of a forward or input-gradient computation and false
  for that of a weight-gradient computation; in \<^verbatim>\<open>HYBRID_MODEL_DATA\<close> it is the
  inverse. With at least one dimension this is the vector of \<open>num_dims\<close> flags of the
  claim; with \<open>num_dims \<le> 0\<close> the vector still has its first flag.
\<close>

theorem hybrid_involved_dim:
  assumes "py_split (py_strip (fst (readline (input_file cfg)))) = tag # rest"
    and "tag = ''HYBRID_DATA_MODEL'' \<or> tag = ''HYBRID_MODEL_DATA''"
    and "file \<in> set (files (final (run cfg)))"
    and "j < length (nodes_of file)"
    and "node_type (nodes_of file ! j) = COMM_COLL_NODE"
  shows "0 < j
    \<and> node_type (nodes_of file ! (j - 1)) = COMP_NODE
    \<and> data_deps (nodes_of file ! j) = [node_id (nodes_of file ! (j - 1))]
    \<and> (is_fwd_comp (nodes_of file ! (j - 1)) \<or> is_ig_comp (nodes_of file ! (j - 1))
        \<or> is_wg_comp (nodes_of file ! (j - 1)))
    \<and> involved_dim_of (nodes_of file ! j) =
        Some ((is_wg_comp (nodes_of file ! (j - 1)) \<noteq> (tag = ''HYBRID_DATA_MODEL''))
              # replicate (nat (num_dims cfg - 1))
                  (is_wg_comp (nodes_of file ! (j - 1)) = (tag = ''HYBRID_DATA_MODEL'')))
    \<and> (1 \<le> num_dims cfg \<longrightarrow>
         involved_dim_of (nodes_of file ! j) =
           Some (dims (is_wg_comp (nodes_of file ! (j - 1)) \<noteq> (tag = ''HYBRID_DATA_MODEL''))
                   (num_dims cfg)))"
proof -
  let ?mf = "tag = ''HYBRID_DATA_MODEL''"
  have "hybrid_inv ?mf (num_dims cfg) (final (run cfg))"
    using assms(1,2) by (rule run_hybrid_inv)
  then have "hybrid_trace_ok ?mf (num_dims cfg) None (nodes_of file)"
    using assms(3) by (simp add: hybrid_inv_def list_all_iff)
  from hybrid_trace_ok_nth [OF this assms(4,5)]
  have j: "0 < j" and c: "comm_after ?mf (num_dims cfg) (nodes_of file ! (j - 1)) (nodes_of file ! j)"
    by (cases "j = 0"; simp)+
  show ?thesis
    using j c by (auto simp: comm_after_def dims_code)
qed

theorem hybrid_involved_dim_witness:
  "py_split (py_strip (fst (readline (input_file hybrid_data_model_three_dims)))) =
     ''HYBRID_DATA_MODEL'' # []
   \<and> hd (files (final (run hybrid_data_model_three_dims)))
        \<in> set (files (final (run hybrid_data_model_three_dims)))
   \<and> 7 < length (nodes_of (hd (files (final (run hybrid_data_model_three_dims)))))
   \<and> node_type (nodes_of (hd (files (final (run hybrid_data_model_three_dims)))) ! 7) = COMM_COLL_NODE
   \<and> is_wg_comp (nodes_of (hd (files (final (run hybrid_data_model_three_dims)))) ! (7 - 1))
   \<and> involved_dim_of (nodes_of (hd (files (final (run hybrid_data_model_three_dims)))) ! 7) =
       Some (dims False 3)
   \<and> map dim_view (nodes_of (hd (files (final (run hybrid_data_model_three_dims))))) =
       [(''COMP_NODE_A_FWD'', COMP_NODE, None),
        (''COMM_COLL_NODE_A_ALLGATHER'', COMM_COLL_NODE, Some [True, False, False]),
        (''COMP_NODE_B_FWD'', COMP_NODE, None),
        (''COMM_COLL_NODE_B_ALLGATHER'', COMM_COLL_NODE, Some [True, False, False]),
        (''COMP_NODE_B_BWD_IG'', COMP_NODE, None),
        (''COMM_COLL_NODE_B_IG_COMM__NONE'', COMM_COLL_NODE, Some [True, False, False]),
        (''COMP_NODE_B_BWD_WG'', COMP_NODE, None),
        (''COMM_COLL_NODE_B_ALLREDUCE'', COMM_COLL_NODE, Some [False, True, True]),
        (''COMP_NODE_A_BWD_IG'', COMP_NODE, None),
        (''COMP_NODE_A_BWD_WG'', COMP_NODE, None),
        (''COMM_COLL_NODE_A_ALLREDUCE'', COMM_COLL_NODE, Some [False, True, True])]
   \<and> map dim_view (nodes_of (hd (files (final (run hybrid_model_data_three_dims))))) =
       [(''COMP_NODE_A_FWD'', COMP_NODE, None),
        (''COMM_COLL_NODE_A_ALLGATHER'', COMM_COLL_NODE, Some [False, True, True]),
        (''COMP_NODE_B_FWD'', COMP_NODE, None),
        (''COMM_COLL_NODE_B_ALLGATHER'', COMM_COLL_NODE, Some [False, True, True]),
        (''COMP_NODE_B_BWD_IG'', COMP_NODE, None),
        (''COMM_COLL_NODE_B_NONE'', COMM_COLL_NODE, Some [False, True, True]),
        (''COMP_NODE_B_BWD_WG'', COMP_NODE, None),
        (''COMM_COLL_NODE_B_ALLREDUCE'', COMM_COLL_NODE, Some [True, False, False]),
        (''COMP_NODE_A_BWD_IG'', COMP_NODE, None),
        (''COMP_NODE_A_BWD_WG'', COMP_NODE, None),
        (''COMM_COLL_NODE_A_ALLREDUCE'', COMM_COLL_NODE, Some [True, False, False])]"
proof -
  let ?cfg = hybrid_data_model_three_dims
  let ?file = "hd (files (final (run ?cfg)))"
  have h1: "py_split (py_strip (fst (readline (input_file ?cfg)))) = ''HYBRID_DATA_MODEL'' # []"
    by code_simp
  have h2: "''HYBRID_DATA_MODEL'' = ''HYBRID_DATA_MODEL'' \<or> ''HYBRID_DATA_MODEL'' = ''HYBRID_MODEL_DATA''"
    by simp
  have h3: "?file \<in> set (files (final (run ?cfg)))"
    by code_simp
  have h4: "7 < length (nodes_of ?file)"
    by code_simp
  have h5: "node_type (nodes_of ?file ! 7) = COMM_COLL_NODE"
    by code_simp
  have wg: "is_wg_comp (nodes_of ?file ! (7 - 1))"
    by code_simp
  have nd: "1 \<le> num_dims ?cfg" and nd3: "num_dims ?cfg = 3"
    by code_simp+
  note T = hybrid_involved_dim [OF h1 h2 h3 h4 h5]
  have "involved_dim_of (nodes_of ?file ! 7) =
      Some (dims (is_wg_comp (nodes_of ?file ! (7 - 1)) \<noteq> (''HYBRID_DATA_MODEL'' = ''HYBRID_DATA_MODEL''))
              (num_dims ?cfg))"
    using T nd by blast
  then have d: "involved_dim_of (nodes_of ?file ! 7) = Some (dims False 3)"
    using wg by (simp add: nd3)
  have v1: "map dim_view (nodes_of ?file) =
       [(''COMP_NODE_A_FWD'', COMP_NODE, None),
        (''COMM_COLL_NODE_A_ALLGATHER'', COMM_COLL_NODE, Some [True, False, False]),
        (''COMP_NODE_B_FWD'', COMP_NODE, None),
        (''COMM_COLL_NODE_B_ALLGATHER'', COMM_COLL_NODE, Some [True, False, False]),
        (''COMP_NODE_B_BWD_IG'', COMP_NODE, None),
        (''COMM_COLL_NODE_B_IG_COMM__NONE'', COMM_COLL_NODE, Some [True, False, False]),
        (''COMP_NODE_B_BWD_WG'', COMP_NODE, None),
        (''COMM_COLL_NODE_B_ALLREDUCE'', COMM_COLL_NODE, Some [False, True, True]),
        (''COMP_NODE_A_BWD_IG'', COMP_NODE, None),
        (''COMP_NODE_A_BWD_WG'', COMP_NODE, None),
        (''COMM_COLL_NODE_A_ALLREDUCE'', COMM_COLL_NODE, Some [False, True, True])]"
    by code_simp
  have v2: "map dim_view (nodes_of (hd (files (final (run hybrid_model_data_three_dims))))) =
       [(''COMP_NODE_A_FWD'', COMP_NODE, None),
        (''COMM_COLL_NODE_A_ALLGATHER'', COMM_COLL_NODE, Some [False, True, True]),
        (''COMP_NODE_B_FWD'', COMP_NODE, None),
        (''COMM_COLL_NODE_B_ALLGATHER'', COMM_COLL_NODE, Some [False, True, True]),
        (''COMP_NODE_B_BWD_IG'', COMP_NODE, None),
        (''COMM_COLL_NODE_B_NONE'', COMM_COLL_NODE, Some [False, True, True]),
        (''COMP_NODE_B_BWD_WG'', COMP_NODE, None),
        (''COMM_COLL_NODE_B_ALLREDUCE'', COMM_COLL_NODE, Some [True, False, False]),
        (''COMP_NODE_A_BWD_IG'', COMP_NODE, None),
        (''COMP_NODE_A_BWD_WG'', COMP_NODE, None),
        (''COMM_COLL_NODE_A_ALLREDUCE'', COMM_COLL_NODE, Some [True, False, False])]"
    by code_simp
  show ?thesis
    by (intro conjI) (rule h1 h3 h4 h5 wg d v1 v2)+
qed

text \<open>
  The claim as stated fails without dimensions: with \<open>num_dims = 0\<close> the vectors have
  one flag, not \<open>num_dims\<close>.
\<close>

theorem hybrid_zero_dims_one_flag:
  "num_dims hybrid_zero_dims = 0
   \<and> raised (run hybrid_zero_dims) = None
   \<and> map dim_view (nodes_of (hd (files (final (run hybrid_zero_dims))))) =
       [(''COMP_NODE_A_FWD'', COMP_NODE, None),
        (''COMM_COLL_NODE_A_ALLGATHER'', COMM_COLL_NODE, Some [True]),
        (''COMP_NODE_A_BWD_IG'', COMP_NODE, None),
        (''COMP_NODE_A_BWD_WG'', COMP_NODE, None),
        (''COMM_COLL_NODE_A_ALLREDUCE'', COMM_COLL_NODE, Some [False])]
   \<and> dims True (num_dims hybrid_zero_dims) = []"
  by code_simp

section \<open>The DLRM builder with boundary 1 on three layers\<close>

lemma upt_3: "[0..<3] = [0, 1, 2]"
  by code_simp

lemma dlrm_forward_step_effect:
  assumes "idx < length (layers s)" and "uint64_ok (fwd_comp_time (layers s ! idx))"
    and "fwd_comm_type (layers s ! idx) = ''ALLTOALL'' \<longrightarrow> uint64_ok (fwd_comm_size (layers s ! idx))"
    and "idx \<noteq> 0 \<longrightarrow> fwd_comp_node (layers s ! (idx - 1)) \<noteq> None"
    and "int idx = b \<longrightarrow> fwd_comm_node (layers s ! 0) \<noteq> None"
  shows "dlrm_forward_step cfg b idx s =
     Ok (s\<lparr>next_node_id :=
             next_node_id s + (if fwd_comm_type (layers s ! idx) = ''ALLTOALL'' then 2 else 1),
           layers := (layers s)
             [idx := (if fwd_comm_type (layers s ! idx) = ''ALLTOALL''
                      then (layers s ! idx)\<lparr>fwd_comp_node := Some (next_node_id s),
                                            fwd_comm_node := Some (next_node_id s + 1)\<rparr>
                      else (layers s ! idx)\<lparr>fwd_comp_node := Some (next_node_id s)\<rparr>)],
           local_fwd_comp_node := Some (next_node_id s),
           sink := sink s
             @ [NodeMessage
                  \<lparr> node_id = next_node_id s,
                    node_name = ''COMP_NODE_'' @ name (layers s ! idx) @ ''_FWD'',
                    node_type = COMP_NODE,
                    duration_micros = fwd_comp_time (layers s ! idx),
                    attr = [],
                    data_deps =
                      (case bwd_wg_comm_node (layers s ! idx) of
                         Some p \<Rightarrow> [p]
                       | None \<Rightarrow> (case bwd_wg_comp_node (layers s ! idx) of
                                    None \<Rightarrow> [] | Some p \<Rightarrow> [p]))
                      @ (if idx \<noteq> 0 then [the (fwd_comp_node (layers s ! (idx - 1)))] else [])
                      @ (if int idx = b then [the (fwd_comm_node (layers s ! 0))] else []) \<rparr>]
             @ (if fwd_comm_type (layers s ! idx) = ''ALLTOALL''
                then [NodeMessage
                        \<lparr> node_id = next_node_id s + 1,
                          node_name = ''COMM_COLL_NODE_'' @ name (layers s ! idx) @ ''_''
                                        @ fwd_comm_type (layers s ! idx),
                          node_type = COMM_COLL_NODE,
                          duration_micros = 0,
                          attr = [ChakraAttr ''comm_type''
                                    (int64_val (get_comm_type (fwd_comm_type (layers s ! idx)))),
                                  ChakraAttr ''comm_size''
                                    (uint64_val (fwd_comm_size (layers s ! idx))),
                                  involved_dim [] True (num_dims cfg)],
                          data_deps = [next_node_id s] \<rparr>]
                else [])\<rparr>)"
  using assms
  by (cases "idx = 0"; cases "fwd_comm_type (layers s ! idx) = ''ALLTOALL''";
      cases "bwd_wg_comm_node (layers s ! idx)"; cases "bwd_wg_comp_node (layers s ! idx)";
      cases "fwd_comp_node (layers s ! (idx - 1))"; cases "fwd_comm_node (layers s ! 0)")
     (simp_all add: dlrm_forward_step_def get_comp_node_ok get_comm_coll_node_ok Let_def
        add_parent_def with_attr_def encode_message_def set_layer_def list_update_overwrite)

lemma dlrm_forward_three_alltoall:
  assumes "layers s = [l0, l1, l2]" and "fwd_comm_type l0 = ''ALLTOALL''"
    and "uint64_ok (fwd_comp_time l0)" and "uint64_ok (fwd_comp_time l1)"
    and "uint64_ok (fwd_comp_time l2)" and "uint64_ok (fwd_comm_size l0)"
    and "fwd_comm_type l1 = ''ALLTOALL'' \<longrightarrow> uint64_ok (fwd_comm_size l1)"
    and "fwd_comm_type l2 = ''ALLTOALL'' \<longrightarrow> uint64_ok (fwd_comm_size l2)"
  shows "post (\<lambda>s'. sink s' = sink s @ map NodeMessage (written s s')
                 \<and> map kind_view (written s s') =
                     [(''COMP_NODE_'' @ name l0 @ ''_FWD'', COMP_NODE),
                      (''COMM_COLL_NODE_'' @ name l0 @ ''_ALLTOALL'', COMM_COLL_NODE),
                      (''COMP_NODE_'' @ name l1 @ ''_FWD'', COMP_NODE)]
                     @ (if fwd_comm_type l1 = ''ALLTOALL''
                        then [(''COMM_COLL_NODE_'' @ name l1 @ ''_ALLTOALL'', COMM_COLL_NODE)] else [])
                     @ [(''COMP_NODE_'' @ name l2 @ ''_FWD'', COMP_NODE)]
                     @ (if fwd_comm_type l2 = ''ALLTOALL''
                        then [(''COMM_COLL_NODE_'' @ name l2 @ ''_ALLTOALL'', COMM_COLL_NODE)] else [])
                 \<and> node_id (written s s' ! 1) \<in> set (data_deps (written s s' ! 2)))
              (\<lambda>s'. False)
              (for_loop (dlrm_forward_step cfg 1) [0..<length (layers s)] s)"
  using assms
  by (cases "fwd_comm_type l1 = ''ALLTOALL''"; cases "fwd_comm_type l2 = ''ALLTOALL''")
     (simp_all add: upt_3 dlrm_forward_step_effect written_def kind_view_def)

lemma dlrm_boundary_one_raises:
  assumes "get_layers f n = Inr [l0, l1, l2]" and "fwd_comm_type l0 \<noteq> ''ALLTOALL''"
    and "0 < num_npus cfg" and "0 < num_passes cfg"
    and "uint64_ok (fwd_comp_time l0)" and "uint64_ok (fwd_comp_time l1)"
  shows "raised (convert_hybrid_dlrm cfg f n 1 s) = Some NoneHasNoId
     \<and> files (final (convert_hybrid_dlrm cfg f n 1 s)) =
         files s @ [[get_global_metadata cfg,
                     NodeMessage \<lparr> node_id = next_node_id s,
                                   node_name = ''COMP_NODE_'' @ name l0 @ ''_FWD'',
                                   node_type = COMP_NODE, duration_micros = fwd_comp_time l0,
                                   attr = [], data_deps = [] \<rparr>]]"
proof -
  have slots0: "bwd_wg_comm_node l0 = None" "bwd_wg_comp_node l0 = None" "fwd_comm_node l0 = None"
    and slots1: "bwd_wg_comm_node l1 = None" "bwd_wg_comp_node l1 = None"
    using get_layers_slots [OF assms(1), of l0] get_layers_slots [OF assms(1), of l1] by simp_all
  have D: "[0..<nat (num_npus cfg)] = 0 # [Suc 0..<nat (num_npus cfg)]"
    using assms(3) by (simp add: upt_conv_Cons)
  have P: "[0..<nat (num_passes cfg)] = 0 # [Suc 0..<nat (num_passes cfg)]"
    using assms(4) by (simp add: upt_conv_Cons)
  show ?thesis
    using assms(2,5,6)
    by (simp add: convert_hybrid_dlrm_def assms(1) D P dlrm_device_def with_open_def
          dlrm_pass_def upt_3 dlrm_forward_step_effect dlrm_forward_step_def get_comp_node_ok
          Let_def close_sink_def encode_message_def slots0 slots1)
qed

text \<open>
  C8, as the code has it. With boundary 1 and three layers whose forward times and sizes
  fit the unsigned 64-bit fields of the trace, a forward sweep run from any state writes
  a forward communication node exactly for the layers whose forward communication kind
  is \<^verbatim>\<open>ALLTOALL\<close>, and the forward compute node of layer 1 depends on the forward
  communication node of layer 0, provided the kind of layer 0 is \<^verbatim>\<open>ALLTOALL\<close>. When
  it is not, layer 0 has no forward communication node, and the conversion (at least one
  device and one pass) raises in its first forward sweep, at layer 1, having written only
  the metadata and the forward compute node of layer 0.
\<close>

theorem dlrm_boundary_one_forward:
  "(layers s = [l0, l1, l2] \<and> fwd_comm_type l0 = ''ALLTOALL''
    \<and> uint64_ok (fwd_comp_time l0) \<and> uint64_ok (fwd_comp_time l1) \<and> uint64_ok (fwd_comp_time l2)
    \<and> uint64_ok (fwd_comm_size l0)
    \<and> (fwd_comm_type l1 = ''ALLTOALL'' \<longrightarrow> uint64_ok (fwd_comm_size l1))
    \<and> (fwd_comm_type l2 = ''ALLTOALL'' \<longrightarrow> uint64_ok (fwd_comm_size l2)) \<longrightarrow>
      post (\<lambda>s'. sink s' = sink s @ map NodeMessage (written s s')
                 \<and> map kind_view (written s s') =
                     [(''COMP_NODE_'' @ name l0 @ ''_FWD'', COMP_NODE),
                      (''COMM_COLL_NODE_'' @ name l0 @ ''_ALLTOALL'', COMM_COLL_NODE),
                      (''COMP_NODE_'' @ name l1 @ ''_FWD'', COMP_NODE)]
                     @ (if fwd_comm_type l1 = ''ALLTOALL''
                        then [(''COMM_COLL_NODE_'' @ name l1 @ ''_ALLTOALL'', COMM_COLL_NODE)] else [])
                     @ [(''COMP_NODE_'' @ name l2 @ ''_FWD'', COMP_NODE)]
                     @ (if fwd_comm_type l2 = ''ALLTOALL''
                        then [(''COMM_COLL_NODE_'' @ name l2 @ ''_ALLTOALL'', COMM_COLL_NODE)] else [])
                 \<and> node_id (written s s' ! 1) \<in> set (data_deps (written s s' ! 2)))
           (\<lambda>s'. False)
           (for_loop (dlrm_forward_step cfg 1) [0..<length (layers s)] s))
   \<and> (get_layers f n = Inr [l0, l1, l2] \<and> fwd_comm_type l0 \<noteq> ''ALLTOALL''
       \<and> 0 < num_npus cfg \<and> 0 < num_passes cfg
       \<and> uint64_ok (fwd_comp_time l0) \<and> uint64_ok (fwd_comp_time l1) \<longrightarrow>
      raised (convert_hybrid_dlrm cfg f n 1 s) = Some NoneHasNoId
      \<and> files (final (convert_hybrid_dlrm cfg f n 1 s)) =
          files s @ [[get_global_metadata cfg,
                      NodeMessage \<lparr> node_id = next_node_id s,
                                    node_name = ''COMP_NODE_'' @ name l0 @ ''_FWD'',
                                    node_type = COMP_NODE, duration_micros = fwd_comp_time l0,
                                    attr = [], data_deps = [] \<rparr>]])"
  using dlrm_forward_three_alltoall [of s l0 l1 l2 cfg] dlrm_boundary_one_raises [of f n l0 l1 l2 cfg s]
  by blast

text \<open>
  The claim's own input: boundary 1, three layers, only layer 1 with kind
  \<^verbatim>\<open>ALLTOALL\<close>. The run raises at layer 1 of the first forward sweep; the file holds
  the forward compute node of layer 0 and no communication node.
\<close>

theorem dlrm_only_layer1_raises:
  "raised (run dlrm_only_layer1_alltoall) = Some NoneHasNoId
   \<and> map (map brief \<circ> nodes_of) (files (final (run dlrm_only_layer1_alltoall))) =
       [[(0, ''COMP_NODE_A_FWD'', [])]]"
  by code_simp

theorem dlrm_boundary_one_forward_witness:
  "layers dlrm_three = [parsed three_layer_lines ! 0, parsed three_layer_lines ! 1,
                        parsed three_layer_lines ! 2]
   \<and> fwd_comm_type (parsed three_layer_lines ! 0) = ''ALLTOALL''
   \<and> uint64_ok (fwd_comp_time (parsed three_layer_lines ! 0))
   \<and> uint64_ok (fwd_comp_time (parsed three_layer_lines ! 1))
   \<and> uint64_ok (fwd_comp_time (parsed three_layer_lines ! 2))
   \<and> uint64_ok (fwd_comm_size (parsed three_layer_lines ! 0))
   \<and> uint64_ok (fwd_comm_size (parsed three_layer_lines ! 1))
   \<and> fwd_comm_type (parsed three_layer_lines ! 2) \<noteq> ''ALLTOALL''
   \<and> map kind_view
        (written dlrm_three
           (final (for_loop (dlrm_forward_step two_dims 1) [0..<length (layers dlrm_three)] dlrm_three))) =
       [(''COMP_NODE_A_FWD'', COMP_NODE), (''COMM_COLL_NODE_A_ALLTOALL'', COMM_COLL_NODE),
        (''COMP_NODE_B_FWD'', COMP_NODE), (''COMM_COLL_NODE_B_ALLTOALL'', COMM_COLL_NODE),
        (''COMP_NODE_C_FWD'', COMP_NODE)]
   \<and> get_layers only_layer1_lines 3 =
        Inr [parsed only_layer1_lines ! 0, parsed only_layer1_lines ! 1, parsed only_layer1_lines ! 2]
   \<and> fwd_comm_type (parsed only_layer1_lines ! 0) \<noteq> ''ALLTOALL''
   \<and> 0 < num_npus two_dims \<and> 0 < num_passes two_dims
   \<and> uint64_ok (fwd_comp_time (parsed only_layer1_lines ! 0))
   \<and> uint64_ok (fwd_comp_time (parsed only_layer1_lines ! 1))
   \<and> raised (convert_hybrid_dlrm two_dims only_layer1_lines 3 1 Text2ChakraConverter_init) =
        Some NoneHasNoId
   \<and> raised (run dlrm_three_alltoall) = None
   \<and> map (map brief \<circ> nodes_of) (files (final (run dlrm_three_alltoall))) =
       [[(0, ''COMP_NODE_A_FWD'', []), (1, ''COMM_COLL_NODE_A_ALLTOALL'', [0]),
         (2, ''COMP_NODE_B_FWD'', [0, 1]), (3, ''COMM_COLL_NODE_B_ALLTOALL'', [2]),
         (4, ''COMP_NODE_C_FWD'', [2]), (5, ''COMP_NODE_C_BWD_WG'', [4]),
         (6, ''COMM_COLL_NODE_C_ALLREDUCE'', [5]), (7, ''COMP_NODE_C_BWD_IG'', [5]),
         (8, ''COMM_COLL_NODE_A_NONE'', [7]), (9, ''COMP_NODE_B_BWD_WG'', [7]),
         (10, ''COMM_COLL_NODE_B_ALLREDUCE'', [9]), (11, ''COMP_NODE_B_BWD_IG'', [9]),
         (12, ''COMP_NODE_A_BWD_WG'', [11, 8]), (13, ''COMM_COLL_NODE_A_ALLREDUCE'', [12])]]"
proof -
  let ?l0 = "parsed three_layer_lines ! 0" and ?l1 = "parsed three_layer_lines ! 1"
    and ?l2 = "parsed three_layer_lines ! 2"
  let ?m0 = "parsed only_layer1_lines ! 0" and ?m1 = "parsed only_layer1_lines ! 1"
    and ?m2 = "parsed only_layer1_lines ! 2"
  let ?sweep = "for_loop (dlrm_forward_step two_dims 1) [0..<length (layers dlrm_three)] dlrm_three"
  note T = dlrm_boundary_one_forward
    [where s = dlrm_three and ?l0.0 = ?l0 and ?l1.0 = ?l1 and ?l2.0 = ?l2 and cfg = two_dims]
  note U = dlrm_boundary_one_forward
    [where s = Text2ChakraConverter_init and ?l0.0 = ?m0 and ?l1.0 = ?m1 and ?l2.0 = ?m2
       and cfg = two_dims and f = only_layer1_lines and n = 3]
  have a1: "layers dlrm_three = [?l0, ?l1, ?l2]"
    by code_simp
  have a2: "fwd_comm_type ?l0 = ''ALLTOALL''"
    by code_simp
  have a3: "uint64_ok (fwd_comp_time ?l0)" and a4: "uint64_ok (fwd_comp_time ?l1)"
    and a5: "uint64_ok (fwd_comp_time ?l2)" and a6: "uint64_ok (fwd_comm_size ?l0)"
    and a7: "uint64_ok (fwd_comm_size ?l1)" and a8: "fwd_comm_type ?l2 \<noteq> ''ALLTOALL''"
    by code_simp+
  have a7': "fwd_comm_type ?l1 = ''ALLTOALL'' \<longrightarrow> uint64_ok (fwd_comm_size ?l1)"
    using a7 by (rule impI)
  have a8': "fwd_comm_type ?l2 = ''ALLTOALL'' \<longrightarrow> uint64_ok (fwd_comm_size ?l2)"
    using a8 by simp
  have b1: "get_layers only_layer1_lines 3 = Inr [?m0, ?m1, ?m2]"
    by code_simp
  have b2: "fwd_comm_type ?m0 \<noteq> ''ALLTOALL''"
    by code_simp
  have b3: "0 < num_npus two_dims" and b4: "0 < num_passes two_dims"
    by (simp_all add: two_dims_def)
  have b5: "uint64_ok (fwd_comp_time ?m0)" and b6: "uint64_ok (fwd_comp_time ?m1)"
    by code_simp+
  have items:
    "[(''COMP_NODE_'' @ name ?l0 @ ''_FWD'', COMP_NODE),
      (''COMM_COLL_NODE_'' @ name ?l0 @ ''_ALLTOALL'', COMM_COLL_NODE),
      (''COMP_NODE_'' @ name ?l1 @ ''_FWD'', COMP_NODE)]
     @ (if fwd_comm_type ?l1 = ''ALLTOALL''
        then [(''COMM_COLL_NODE_'' @ name ?l1 @ ''_ALLTOALL'', COMM_COLL_NODE)] else [])
     @ [(''COMP_NODE_'' @ name ?l2 @ ''_FWD'', COMP_NODE)]
     @ (if fwd_comm_type ?l2 = ''ALLTOALL''
        then [(''COMM_COLL_NODE_'' @ name ?l2 @ ''_ALLTOALL'', COMM_COLL_NODE)] else []) =
     [(''COMP_NODE_A_FWD'', COMP_NODE), (''COMM_COLL_NODE_A_ALLTOALL'', COMM_COLL_NODE),
      (''COMP_NODE_B_FWD'', COMP_NODE), (''COMM_COLL_NODE_B_ALLTOALL'', COMM_COLL_NODE),
      (''COMP_NODE_C_FWD'', COMP_NODE)]"
    by code_simp
  from T [THEN conjunct1, THEN mp,
          OF conjI [OF a1 conjI [OF a2 conjI [OF a3 conjI [OF a4 conjI [OF a5 conjI [OF a6
             conjI [OF a7' a8']]]]]]]]
  obtain s' where ok: "?sweep = Ok s'"
    and v: "map kind_view (written dlrm_three s') =
     [(''COMP_NODE_A_FWD'', COMP_NODE), (''COMM_COLL_NODE_A_ALLTOALL'', COMM_COLL_NODE),
      (''COMP_NODE_B_FWD'', COMP_NODE), (''COMM_COLL_NODE_B_ALLTOALL'', COMM_COLL_NODE),
      (''COMP_NODE_C_FWD'', COMP_NODE)]"
    unfolding items by (cases ?sweep) auto
  have c: "map kind_view (written dlrm_three (final ?sweep)) =
     [(''COMP_NODE_A_FWD'', COMP_NODE), (''COMM_COLL_NODE_A_ALLTOALL'', COMM_COLL_NODE),
      (''COMP_NODE_B_FWD'', COMP_NODE), (''COMM_COLL_NODE_B_ALLTOALL'', COMM_COLL_NODE),
      (''COMP_NODE_C_FWD'', COMP_NODE)]"
    unfolding ok final.simps by (rule v)
  from U [THEN conjunct2, THEN mp,
          OF conjI [OF b1 conjI [OF b2 conjI [OF b3 conjI [OF b4 conjI [OF b5 b6]]]]]]
  have d: "raised (convert_hybrid_dlrm two_dims only_layer1_lines 3 1 Text2ChakraConverter_init) =
        Some NoneHasNoId"
    by (rule conjunct1)
  have e: "raised (run dlrm_three_alltoall) = None"
    by code_simp
  have f: "map (map brief \<circ> nodes_of) (files (final (run dlrm_three_alltoall))) =
       [[(0, ''COMP_NODE_A_FWD'', []), (1, ''COMM_COLL_NODE_A_ALLTOALL'', [0]),
         (2, ''COMP_NODE_B_FWD'', [0, 1]), (3, ''COMM_COLL_NODE_B_ALLTOALL'', [2]),
         (4, ''COMP_NODE_C_FWD'', [2]), (5, ''COMP_NODE_C_BWD_WG'', [4]),
         (6, ''COMM_COLL_NODE_C_ALLREDUCE'', [5]), (7, ''COMP_NODE_C_BWD_IG'', [5]),
         (8, ''COMM_COLL_NODE_A_NONE'', [7]), (9, ''COMP_NODE_B_BWD_WG'', [7]),
         (10, ''COMM_COLL_NODE_B_ALLREDUCE'', [9]), (11, ''COMP_NODE_B_BWD_IG'', [9]),
         (12, ''COMP_NODE_A_BWD_WG'', [11, 8]), (13, ''COMM_COLL_NODE_A_ALLREDUCE'', [12])]]"
    by code_simp
  show ?thesis
    by (intro conjI) (rule a1 a2 a3 a4 a5 a6 a7 a8 c b1 b2 b3 b4 b5 b6 d e f)+
qed

end
